theory Spec2Isabelle
  imports Complex_Main "HOL-Library.Sublist"
begin

section \<open>Python values\<close>

text \<open>
  The service is one Python module, \<^verbatim>\<open>main.py\<close>: a webhook handler \<^verbatim>\<open>build_app\<close> that
  drives a language-model API, a git-hosting API and a callback URL. This theory embeds
  the module function by function. Everything outside the module (the language model,
  the git host, HTTP, the file system, the clock) is an oracle of the environment, and
  every call the module makes is recorded, in order, in a trace.

  Python strings are modelled by \<^typ>\<open>string\<close>, one \<^typ>\<open>char\<close> per code point, which
  restricts the model to code points below 256. The string methods below are the Python
  ones on that range.
\<close>

definition ord :: "char \<Rightarrow> nat" where
  "ord c = of_char c"

definition isspace :: "char \<Rightarrow> bool" where
  \<comment> \<open>\<^verbatim>\<open>str.isspace\<close> on one character: tab to carriage return, the four separators
      28 to 31, space, NEL and the no-break space.\<close>
  "isspace c = (let n = ord c in (9 \<le> n \<and> n \<le> 13) \<or> (28 \<le> n \<and> n \<le> 32) \<or> n = 133 \<or> n = 160)"

definition isprintable :: "char \<Rightarrow> bool" where
  \<comment> \<open>\<^verbatim>\<open>str.isprintable\<close> on one character: not a control character, not the no-break
      space (160), not the soft hyphen (173).\<close>
  "isprintable c = (let n = ord c in (32 \<le> n \<and> n \<le> 126) \<or> (161 \<le> n \<and> n \<noteq> 173))"

definition lower_char :: "char \<Rightarrow> char" where
  "lower_char c = (let n = ord c in
     if (65 \<le> n \<and> n \<le> 90) \<or> (192 \<le> n \<and> n \<le> 222 \<and> n \<noteq> 215) then char_of (n + 32) else c)"

definition lower :: "string \<Rightarrow> string" where
  "lower s = map lower_char s"

definition strip :: "string \<Rightarrow> string" where
  "strip s = rev (dropWhile isspace (rev (dropWhile isspace s)))"

definition startswith :: "string \<Rightarrow> string \<Rightarrow> bool" where
  \<comment> \<open>\<^verbatim>\<open>s.startswith(p)\<close>\<close>
  "startswith s p = prefix p s"

definition endswith :: "string \<Rightarrow> string \<Rightarrow> bool" where
  "endswith s p = suffix p s"

fun contains :: "string \<Rightarrow> string \<Rightarrow> bool" where
  \<comment> \<open>\<^verbatim>\<open>p in s\<close> for two strings\<close>
  "contains [] p = (p = [])"
| "contains (c # cs) p = (prefix p (c # cs) \<or> contains cs p)"

function replace :: "string \<Rightarrow> string \<Rightarrow> string \<Rightarrow> string" where
  \<comment> \<open>\<^verbatim>\<open>s.replace(old, new)\<close>, left to right without overlap. The module only ever
      passes a non-empty literal for \<^verbatim>\<open>old\<close>; for an empty one the model leaves \<open>s\<close> as it is.\<close>
  "replace [] old new = []"
| "replace (c # cs) old new =
     (if old \<noteq> [] \<and> prefix old (c # cs)
      then new @ replace (drop (length old) (c # cs)) old new
      else c # replace cs old new)"
  by pat_completeness auto
termination
  by (relation "measure (\<lambda>(s, old, new). length s)") (auto simp: neq_Nil_conv)

fun split_once :: "string \<Rightarrow> char \<Rightarrow> (string \<times> string) option" where
  \<comment> \<open>\<^verbatim>\<open>a, b = s.split(sep, 1)\<close>: the parts before and after the first separator,
      \<open>None\<close> where there is no separator and the unpacking raises.\<close>
  "split_once [] sep = None"
| "split_once (c # cs) sep =
     (if c = sep then Some ([], cs)
      else (case split_once cs sep of None \<Rightarrow> None | Some (a, b) \<Rightarrow> Some (c # a, b)))"

definition utf8_len :: "string \<Rightarrow> nat" where
  \<comment> \<open>\<^verbatim>\<open>len(s.encode("utf-8"))\<close>: a code point below 128 is one byte, one below 256 two.\<close>
  "utf8_len s = sum_list (map (\<lambda>c. if ord c < 128 then 1 else 2) s)"

text \<open>
  Values decoded from JSON. An object is the list of its items in insertion order.
  A float is its exact value; \<^verbatim>\<open>NaN\<close> and the infinities, which equal no integer, are
  not represented.
\<close>

datatype json =
    JNull
  | JBool bool
  | JInt int
  | JFloat rat
  | JStr string
  | JArr "json list"
  | JObj "(string \<times> json) list"

datatype exn =
    KeyError string
  | TypeError
  | AttributeError
  | ValueError
  | IndexError
  | AssertionError
  | UnicodeDecodeError
  | OSError
  | UnknownObjectException
  | GithubException nat
  | RequestException
  | OtherException string

text \<open>
  PyGithub builds the exception from the response. It raises \<^verbatim>\<open>UnknownObjectException\<close>, a
  subclass of \<^verbatim>\<open>GithubException\<close> whose status is 404, for a 404 whose message is
  "Not Found" or contains "no object found", and the plain \<^verbatim>\<open>GithubException\<close> with its
  status for every other failure, a 404 with another message among them. So
  \<^verbatim>\<open>except UnknownObjectException\<close> does not catch every exception with
  \<^verbatim>\<open>e.status == 404\<close>.
\<close>

definition is_github :: "exn \<Rightarrow> bool" where
  \<comment> \<open>\<^verbatim>\<open>except GithubException\<close> catches the exception\<close>
  "is_github e = (case e of GithubException st \<Rightarrow> True | UnknownObjectException \<Rightarrow> True | _ \<Rightarrow> False)"

definition is_unknown_object :: "exn \<Rightarrow> bool" where
  \<comment> \<open>\<^verbatim>\<open>except github.UnknownObjectException\<close> catches the exception\<close>
  "is_unknown_object e = (e = UnknownObjectException)"

definition py_get :: "json \<Rightarrow> string \<Rightarrow> exn + json" where
  \<comment> \<open>\<^verbatim>\<open>d.get(k)\<close>\<close>
  "py_get d k = (case d of
      JObj kvs \<Rightarrow> (case map_of kvs k of None \<Rightarrow> Inr JNull | Some v \<Rightarrow> Inr v)
    | _ \<Rightarrow> Inl AttributeError)"

definition py_get_default :: "json \<Rightarrow> string \<Rightarrow> json \<Rightarrow> exn + json" where
  \<comment> \<open>\<^verbatim>\<open>d.get(k, default)\<close>\<close>
  "py_get_default d k dflt = (case d of
      JObj kvs \<Rightarrow> (case map_of kvs k of None \<Rightarrow> Inr dflt | Some v \<Rightarrow> Inr v)
    | _ \<Rightarrow> Inl AttributeError)"

definition py_index :: "json \<Rightarrow> string \<Rightarrow> exn + json" where
  \<comment> \<open>\<^verbatim>\<open>d[k]\<close> for a string key\<close>
  "py_index d k = (case d of
      JObj kvs \<Rightarrow> (case map_of kvs k of None \<Rightarrow> Inl (KeyError k) | Some v \<Rightarrow> Inr v)
    | _ \<Rightarrow> Inl TypeError)"

definition py_iter :: "json \<Rightarrow> exn + json list" where
  \<comment> \<open>the elements a \<^verbatim>\<open>for\<close> loop visits\<close>
  "py_iter v = (case v of
      JArr xs \<Rightarrow> Inr xs
    | JStr s \<Rightarrow> Inr (map (\<lambda>c. JStr [c]) s)
    | JObj kvs \<Rightarrow> Inr (map (\<lambda>kv. JStr (fst kv)) kvs)
    | _ \<Rightarrow> Inl TypeError)"

definition py_truthy :: "json \<Rightarrow> bool" where
  "py_truthy v = (case v of
      JNull \<Rightarrow> False
    | JBool b \<Rightarrow> b
    | JInt i \<Rightarrow> i \<noteq> 0
    | JFloat r \<Rightarrow> r \<noteq> 0
    | JStr s \<Rightarrow> s \<noteq> []
    | JArr xs \<Rightarrow> xs \<noteq> []
    | JObj kvs \<Rightarrow> kvs \<noteq> [])"

definition py_in :: "string \<Rightarrow> json \<Rightarrow> exn + bool" where
  \<comment> \<open>\<^verbatim>\<open>k in v\<close> for a string \<open>k\<close>\<close>
  "py_in k v = (case v of
      JStr s \<Rightarrow> Inr (contains s k)
    | JArr xs \<Rightarrow> Inr (JStr k \<in> set xs)
    | JObj kvs \<Rightarrow> Inr (k \<in> set (map fst kvs))
    | _ \<Rightarrow> Inl TypeError)"

definition py_eq_int :: "json \<Rightarrow> int \<Rightarrow> bool" where
  \<comment> \<open>\<^verbatim>\<open>v == n\<close> for an integer literal: \<^verbatim>\<open>True == 1\<close> and \<^verbatim>\<open>1.0 == 1\<close> hold in Python.\<close>
  "py_eq_int v n = (case v of
      JBool b \<Rightarrow> (if b then 1 else 0) = n
    | JInt i \<Rightarrow> i = n
    | JFloat r \<Rightarrow> r = of_int n
    | _ \<Rightarrow> False)"

definition py_ne_secret :: "json \<Rightarrow> string option \<Rightarrow> bool" where
  \<comment> \<open>\<^verbatim>\<open>v != STUDENT_SECRET\<close>, the right side a string or \<^verbatim>\<open>None\<close>\<close>
  "py_ne_secret v secret = (case (v, secret) of
      (JNull, None) \<Rightarrow> False
    | (JStr s, Some t) \<Rightarrow> s \<noteq> t
    | _ \<Rightarrow> True)"

section \<open>The environment, the trace and the state\<close>

datatype llm_request =
    Generate json "json list" "string list"
  | Edit string string string string

datatype gh_request =
    GetRepo string
  | DeleteRepo string
  | CreateRepo string bool string string
  | CreateFile string string string string
  | UpdateFile string string string string string
  | GetContents string string
  | EditRepo string
  | GetCommits string

datatype http_request =
    Post json json "nat option"
  | Get string nat

text \<open>
  An event is one effect of the module. A call to the git host is recorded with what it
  asked for and with the exception it raised, \<open>None\<close> where it returned; an HTTP request
  with the status it was answered with, or the exception. The request to the language
  model is represented by the values that the module interpolates into its prompt, not
  by the prompt's text. Request headers are left out.
\<close>

datatype event =
    Print string
  | LogWarning string
  | Sleep nat
  | FileOpen json
  | FileWrite json string
  | Llm llm_request
  | GitHub gh_request "exn option"
  | Http http_request "exn + nat"

record repository =
  repo_name :: string
  html_url :: string

text \<open>
  What \<^verbatim>\<open>repo.get_contents(path)\<close> returns for a file: its path, the identity of its blob,
  and its text, \<open>None\<close> where \<^verbatim>\<open>decoded_content.decode("utf-8")\<close> raises.
\<close>

record content_file =
  cf_path :: string
  cf_sha :: string
  cf_text :: "string option"

text \<open>
  The environment: the process configuration read when the module is imported, the
  attributes of the authenticated git-host user, three pure library functions (\<^verbatim>\<open>str\<close> on
  a decoded JSON value, \<^verbatim>\<open>base64.b64decode\<close> with \<open>None\<close> where it raises, and
  \<^verbatim>\<open>bytes.decode("utf-8", errors="ignore")\<close>), and one oracle per kind of external call. An
  oracle is asked with the number of external calls made so far, so it can answer every
  call differently; the theorems hold for all oracles. The attributes \<^verbatim>\<open>user.name\<close>,
  \<^verbatim>\<open>user.login\<close>, \<^verbatim>\<open>repo.name\<close> and \<^verbatim>\<open>repo.html_url\<close> are plain values: the requests that
  PyGithub may make to load them are not modelled.
\<close>

record env =
  STUDENT_SECRET :: "string option"
  user_name :: "string option"
  user_login :: string
  py_str :: "json \<Rightarrow> string"
  b64decode :: "string \<Rightarrow> string option"
  decode_utf8_ignore :: "string \<Rightarrow> string"
  latency :: "nat \<Rightarrow> nat"
  oversleep :: "nat \<Rightarrow> nat"
  open_reply :: "nat \<Rightarrow> exn option"
  llm_json_reply :: "nat \<Rightarrow> exn + json"
  llm_text_reply :: "nat \<Rightarrow> exn + string"
  repo_reply :: "nat \<Rightarrow> exn + repository"
  contents_reply :: "nat \<Rightarrow> exn + content_file"
  listing_reply :: "nat \<Rightarrow> exn + string list"
  commits_reply :: "nat \<Rightarrow> exn + string list"
  write_reply :: "nat \<Rightarrow> exn option"
  http_reply :: "nat \<Rightarrow> exn + nat"

record state =
  trace :: "event list"
  calls :: nat
  now :: nat

text \<open>
  \<open>trace\<close> lists the effects so far, oldest first; \<open>calls\<close> counts the external calls;
  \<open>now\<close> is the clock \<^verbatim>\<open>time.time()\<close> reads, in milliseconds. The clock never runs
  backwards: an external call takes the time the environment says, and a sleep of \<open>d\<close>
  seconds at least \<open>d\<close> seconds.

  A computation takes the state and returns an exception or a value, with the new state.
\<close>

type_synonym 'a io = "state \<Rightarrow> (exn + 'a) \<times> state"

definition io_return :: "'a \<Rightarrow> 'a io" where
  "io_return x = (\<lambda>s. (Inr x, s))"

definition io_raise :: "exn \<Rightarrow> 'a io" where
  "io_raise e = (\<lambda>s. (Inl e, s))"

definition io_lift :: "exn + 'a \<Rightarrow> 'a io" where
  "io_lift r = (\<lambda>s. (r, s))"

definition io_bind :: "'a io \<Rightarrow> ('a \<Rightarrow> 'b io) \<Rightarrow> 'b io" where
  "io_bind m f = (\<lambda>s. case m s of (Inl e, s') \<Rightarrow> (Inl e, s') | (Inr x, s') \<Rightarrow> f x s')"

definition io_then :: "unit io \<Rightarrow> 'b io \<Rightarrow> 'b io" where
  "io_then m k = io_bind m (\<lambda>u. k)"

definition io_catch :: "'a io \<Rightarrow> (exn \<Rightarrow> 'a io) \<Rightarrow> 'a io" where
  \<comment> \<open>\<^verbatim>\<open>try: m  except Exception as e: h(e)\<close>; a handler for one class re-raises the others.\<close>
  "io_catch m h = (\<lambda>s. case m s of (Inl e, s') \<Rightarrow> h e s' | (Inr x, s') \<Rightarrow> (Inr x, s'))"

definition emit :: "event \<Rightarrow> state \<Rightarrow> state" where
  "emit e s = s\<lparr>trace := trace s @ [e]\<rparr>"

definition print :: "string \<Rightarrow> unit io" where
  \<comment> \<open>\<^verbatim>\<open>print(...)\<close>; the trace keeps the text of the line in ASCII, without its emoji, and
      with the names the line interpolates, but not the text of an exception or a size.\<close>
  "print msg = (\<lambda>s. (Inr (), emit (Print msg) s))"

definition external :: "env \<Rightarrow> event \<Rightarrow> state \<Rightarrow> state" where
  \<comment> \<open>one external call: it is recorded, it is counted, and it takes some time\<close>
  "external env e s =
     s\<lparr>trace := trace s @ [e], calls := Suc (calls s), now := now s + latency env (calls s)\<rparr>"

definition sleep_st :: "env \<Rightarrow> nat \<Rightarrow> state \<Rightarrow> state" where
  \<comment> \<open>\<^verbatim>\<open>time.sleep(d)\<close> returns no earlier than \<open>d\<close> seconds later.\<close>
  "sleep_st env d s =
     s\<lparr>trace := trace s @ [Sleep d], calls := Suc (calls s),
       now := now s + 1000 * d + oversleep env (calls s)\<rparr>"

definition sleep :: "env \<Rightarrow> nat \<Rightarrow> unit io" where
  "sleep env d = (\<lambda>s. (Inr (), sleep_st env d s))"

definition err_of :: "exn + 'a \<Rightarrow> exn option" where
  "err_of r = (case r of Inl e \<Rightarrow> Some e | Inr x \<Rightarrow> None)"

definition gh_call :: "env \<Rightarrow> (env \<Rightarrow> nat \<Rightarrow> exn + 'a) \<Rightarrow> gh_request \<Rightarrow> 'a io" where
  "gh_call env oracle req =
     (\<lambda>s. let r = oracle env (calls s) in (r, external env (GitHub req (err_of r)) s))"

definition gh_write :: "env \<Rightarrow> gh_request \<Rightarrow> unit io" where
  "gh_write env req =
     (\<lambda>s. let r = write_reply env (calls s) in
        (case r of None \<Rightarrow> Inr () | Some e \<Rightarrow> Inl e, external env (GitHub req r) s))"

definition get_repo :: "env \<Rightarrow> string \<Rightarrow> repository io" where
  "get_repo env name = gh_call env repo_reply (GetRepo name)"

definition create_repo :: "env \<Rightarrow> string \<Rightarrow> bool \<Rightarrow> string \<Rightarrow> string \<Rightarrow> repository io" where
  "create_repo env name private description license_template =
     gh_call env repo_reply (CreateRepo name private description license_template)"

definition get_contents :: "env \<Rightarrow> repository \<Rightarrow> string \<Rightarrow> content_file io" where
  "get_contents env repo path = gh_call env contents_reply (GetContents (repo_name repo) path)"

definition get_listing :: "env \<Rightarrow> repository \<Rightarrow> string list io" where
  \<comment> \<open>\<^verbatim>\<open>repo.get_contents("")\<close>: the names in the root directory\<close>
  "get_listing env repo = gh_call env listing_reply (GetContents (repo_name repo) [])"

definition get_commits :: "env \<Rightarrow> repository \<Rightarrow> string list io" where
  "get_commits env repo = gh_call env commits_reply (GetCommits (repo_name repo))"

definition create_file :: "env \<Rightarrow> repository \<Rightarrow> string \<Rightarrow> string \<Rightarrow> string \<Rightarrow> unit io" where
  "create_file env repo path message content =
     gh_write env (CreateFile (repo_name repo) path message content)"

definition update_file ::
  "env \<Rightarrow> repository \<Rightarrow> string \<Rightarrow> string \<Rightarrow> string \<Rightarrow> string \<Rightarrow> unit io" where
  "update_file env repo path message content sha =
     gh_write env (UpdateFile (repo_name repo) path message content sha)"

definition http_post :: "env \<Rightarrow> json \<Rightarrow> json \<Rightarrow> nat option \<Rightarrow> nat io" where
  \<comment> \<open>\<^verbatim>\<open>requests.post(url, json=body, timeout=t)\<close>; the value is \<^verbatim>\<open>r.status_code\<close>.\<close>
  "http_post env url body timeout =
     (\<lambda>s. let r = http_reply env (calls s) in (r, external env (Http (Post url body timeout) r) s))"

definition http_get :: "env \<Rightarrow> string \<Rightarrow> nat \<Rightarrow> nat io" where
  "http_get env url timeout =
     (\<lambda>s. let r = http_reply env (calls s) in (r, external env (Http (Get url timeout) r) s))"

section \<open>The page readiness poller and the callback loop\<close>

text \<open>
  \<^verbatim>\<open>wait_for_pages_ready(pages_url, max_wait=60)\<close>. The loop tests
  \<^verbatim>\<open>time.time() - start < max_wait\<close>, fetches with a 5 second timeout, returns \<^verbatim>\<open>True\<close> on
  status 200, swallows \<^verbatim>\<open>requests.RequestException\<close> only, and sleeps 3 seconds.
\<close>

function wait_loop :: "env \<Rightarrow> string \<Rightarrow> nat \<Rightarrow> nat \<Rightarrow> state \<Rightarrow> (exn + bool) \<times> state" where
  "wait_loop env pages_url max_wait start s =
     (if int (now s) - int start < int max_wait * 1000
      then (case http_get env pages_url 5 s of
              (Inr status, s1) \<Rightarrow>
                 if status = 200
                 then io_then (print (''GitHub Pages is live: '' @ pages_url)) (io_return True) s1
                 else wait_loop env pages_url max_wait start (sleep_st env 3 s1)
            | (Inl e, s1) \<Rightarrow>
                 if e = RequestException
                 then wait_loop env pages_url max_wait start (sleep_st env 3 s1)
                 else (Inl e, s1))
      else io_then (print ''GitHub Pages did not become live within the timeout window.'')
             (io_return False) s)"
  by pat_completeness auto
termination
  by (relation "measure (\<lambda>(env, pages_url, max_wait, start, s). start + max_wait * 1000 - now s)")
     (auto simp: http_get_def external_def sleep_st_def Let_def)

declare wait_loop.simps [simp del]

definition wait_for_pages_ready :: "env \<Rightarrow> string \<Rightarrow> nat \<Rightarrow> bool io" where
  "wait_for_pages_ready env pages_url max_wait =
     io_then (print (''Waiting for GitHub Pages to go live at '' @ pages_url))
       (\<lambda>s. wait_loop env pages_url max_wait (now s) s)"

text \<open>
  The callback loop of \<^verbatim>\<open>build_app\<close>, the same text in both rounds:
  \<^verbatim>\<open>delay = 1; while True: try: post, break on 200; except Exception: warn;
  time.sleep(delay); delay = min(delay * 2, 60)\<close>. It has no other exit, so the model
  returns \<open>None\<close> where it runs forever.
\<close>

partial_function (option) notify_loop :: "env \<Rightarrow> json \<Rightarrow> json \<Rightarrow> nat \<Rightarrow> state \<Rightarrow> state option" where
  "notify_loop env evaluation_url payload delay s =
     (case http_post env evaluation_url payload (Some 10) s of
        (Inr status, s1) \<Rightarrow>
           if status = 200 then Some s1
           else notify_loop env evaluation_url payload (min (delay * 2) 60) (sleep_st env delay s1)
      | (Inl e, s1) \<Rightarrow>
           notify_loop env evaluation_url payload (min (delay * 2) 60)
             (sleep_st env delay (emit (LogWarning ''Retrying evaluation callback'') s1)))"


section \<open>Small helpers\<close>

definition nl :: string where
  "nl = [CHR 0x0A]"

definition sq :: string where
  \<comment> \<open>one single quote\<close>
  "sq = [CHR 0x27]"

definition fence :: string where
  \<comment> \<open>the markdown code fence, three backquotes\<close>
  "fence = [CHR 0x60, CHR 0x60, CHR 0x60]"

definition need_str :: "exn \<Rightarrow> json \<Rightarrow> string io" where
  \<comment> \<open>a string method called on a value: the exception is what a non-string raises there\<close>
  "need_str e v = (case v of JStr s \<Rightarrow> io_return s | _ \<Rightarrow> io_raise e)"

definition fmt :: "env \<Rightarrow> json \<Rightarrow> string" where
  \<comment> \<open>a value interpolated into an f-string\<close>
  "fmt env v = (case v of JStr s \<Rightarrow> s | _ \<Rightarrow> py_str env v)"

fun map_result :: "('a \<Rightarrow> exn + 'b) \<Rightarrow> 'a list \<Rightarrow> exn + 'b list" where
  \<comment> \<open>a list comprehension whose element expression may raise\<close>
  "map_result f [] = Inr []"
| "map_result f (x # xs) =
     (case f x of Inl e \<Rightarrow> Inl e
      | Inr y \<Rightarrow> (case map_result f xs of Inl e \<Rightarrow> Inl e | Inr ys \<Rightarrow> Inr (y # ys)))"

definition decoded :: "content_file \<Rightarrow> string io" where
  \<comment> \<open>\<^verbatim>\<open>contents.decoded_content.decode("utf-8")\<close>\<close>
  "decoded cf = (case cf_text cf of None \<Rightarrow> io_raise UnicodeDecodeError | Some t \<Rightarrow> io_return t)"

definition first_sha :: "string list \<Rightarrow> string io" where
  \<comment> \<open>\<^verbatim>\<open>repo.get_commits()[0].sha\<close>\<close>
  "first_sha shas = (case shas of [] \<Rightarrow> io_raise IndexError | sha # rest \<Rightarrow> io_return sha)"

definition safe_name :: "string \<Rightarrow> string" where
  \<comment> \<open>\<^verbatim>\<open>task.replace(" ", "-").replace("/", "-")\<close>\<close>
  "safe_name task = replace (replace task '' '' ''-'') ''/'' ''-''"

definition file_open :: "env \<Rightarrow> json \<Rightarrow> unit io" where
  \<comment> \<open>\<^verbatim>\<open>open(name, "wb")\<close>\<close>
  "file_open env name =
     (\<lambda>s. (case open_reply env (calls s) of None \<Rightarrow> Inr () | Some e \<Rightarrow> Inl e,
            external env (FileOpen name) s))"

definition file_write :: "json \<Rightarrow> string \<Rightarrow> unit io" where
  "file_write name bytes = (\<lambda>s. (Inr (), emit (FileWrite name bytes) s))"

definition llm_generate :: "env \<Rightarrow> json \<Rightarrow> json list \<Rightarrow> string list \<Rightarrow> json io" where
  \<comment> \<open>the chat completion of \<^verbatim>\<open>generate_minimal_app\<close> followed by \<^verbatim>\<open>json.loads\<close>; the
      request is represented by the values interpolated into the prompt.\<close>
  "llm_generate env brief checks names =
     (\<lambda>s. (llm_json_reply env (calls s), external env (Llm (Generate brief checks names)) s))"

definition llm_edit :: "env \<Rightarrow> string \<Rightarrow> string \<Rightarrow> string \<Rightarrow> string \<Rightarrow> string io" where
  \<comment> \<open>the chat completion of \<^verbatim>\<open>llm_update_file\<close>; the value is the message content.\<close>
  "llm_edit env role task new_brief old_content =
     (\<lambda>s. (llm_text_reply env (calls s), external env (Llm (Edit role task new_brief old_content)) s))"

section \<open>The app generator\<close>

definition attachment_names :: "json \<Rightarrow> exn + string list" where
  \<comment> \<open>\<^verbatim>\<open>names = [a["name"] for a in attachments]\<close> and the \<^verbatim>\<open>', '.join(names)\<close> that
      needs every name to be a string, both only for a truthy \<^verbatim>\<open>attachments\<close>\<close>
  "attachment_names attachments =
     (if py_truthy attachments
      then (case py_iter attachments of Inl e \<Rightarrow> Inl e
            | Inr atts \<Rightarrow>
               (case map_result (\<lambda>a. py_index a ''name'') atts of Inl e \<Rightarrow> Inl e
                | Inr names \<Rightarrow>
                    map_result (\<lambda>n. case n of JStr x \<Rightarrow> Inr x | _ \<Rightarrow> Inl TypeError) names))
      else Inr [])"

definition generate_minimal_app :: "env \<Rightarrow> json \<Rightarrow> json \<Rightarrow> json \<Rightarrow> json io" where
  "generate_minimal_app env brief checks attachments =
     io_bind (io_lift (py_iter checks)) (\<lambda>cs.
     io_bind (io_lift (attachment_names attachments)) (\<lambda>names.
     llm_generate env brief cs names))"

section \<open>The repository publisher (round 1)\<close>

definition attachment_ok :: "json \<Rightarrow> json \<Rightarrow> exn + bool" where
  \<comment> \<open>\<^verbatim>\<open>name and url and url.startswith("data:")\<close>\<close>
  "attachment_ok name url =
     (if \<not> py_truthy name then Inr False
      else if \<not> py_truthy url then Inr False
      else (case url of JStr u \<Rightarrow> Inr (startswith u ''data:'') | _ \<Rightarrow> Inl AttributeError))"

definition upload_attachment :: "env \<Rightarrow> repository \<Rightarrow> json \<Rightarrow> json \<Rightarrow> unit io" where
  \<comment> \<open>the body of the \<^verbatim>\<open>try\<close> in \<^verbatim>\<open>process_attachments\<close>\<close>
  "upload_attachment env repo name url =
     io_bind (need_str AttributeError url) (\<lambda>u.
       case split_once u CHR '','' of
         None \<Rightarrow> io_raise ValueError
       | Some (header, encoded) \<Rightarrow>
          (case b64decode env encoded of
             None \<Rightarrow> io_raise ValueError
           | Some data \<Rightarrow>
              (case name of
                 JStr n \<Rightarrow>
                   io_then (create_file env repo n (''Add attachment '' @ n) (decode_utf8_ignore env data))
                     (print (''Uploaded attachment: '' @ n))
               | _ \<Rightarrow> io_raise AssertionError)))"

fun process_attachments_loop :: "env \<Rightarrow> json list \<Rightarrow> repository \<Rightarrow> unit io" where
  "process_attachments_loop env [] repo = io_return ()"
| "process_attachments_loop env (att # rest) repo =
     io_bind (io_lift (py_get att ''name'')) (\<lambda>name.
     io_bind (io_lift (py_get att ''url'')) (\<lambda>url.
     io_bind (io_lift (attachment_ok name url)) (\<lambda>ok.
     io_then
       (if \<not> ok then io_return ()
        else io_catch (upload_attachment env repo name url)
               (\<lambda>e. print (''Failed to process '' @ fmt env name)))
       (process_attachments_loop env rest repo))))"

definition process_attachments :: "env \<Rightarrow> json \<Rightarrow> repository \<Rightarrow> unit io" where
  "process_attachments env attachments repo =
     io_bind (io_lift (py_iter attachments)) (\<lambda>atts. process_attachments_loop env atts repo)"

primrec wait_deleted :: "env \<Rightarrow> string \<Rightarrow> nat \<Rightarrow> unit io" where
  \<comment> \<open>the \<^verbatim>\<open>for _ in range(120)\<close> of \<^verbatim>\<open>delete_repo_if_exists\<close>, by the rounds left\<close>
  "wait_deleted env name 0 = io_return ()"
| "wait_deleted env name (Suc n) =
     io_then (sleep env 5)
       (io_bind
          (io_catch (io_bind (get_repo env name) (\<lambda>r. io_return False))
             (\<lambda>e. if is_unknown_object e
                  then io_then (print ''Repo deletion confirmed.'')
                         (io_then (sleep env 15) (io_return True))
                  else io_raise e))
          (\<lambda>confirmed. if confirmed then io_return ()
             else io_then (print ''Waiting for repo deletion...'') (wait_deleted env name n)))"

definition delete_repo_if_exists :: "env \<Rightarrow> string \<Rightarrow> unit io" where
  "delete_repo_if_exists env name =
     io_catch
       (io_bind (get_repo env name) (\<lambda>repo.
        io_then (gh_write env (DeleteRepo (repo_name repo)))
          (io_then (print (''Deleted existing repo: '' @ name))
             (wait_deleted env name 120))))
       (\<lambda>e. if is_unknown_object e then io_return () else io_raise e)"

definition get_mit_license :: "string option \<Rightarrow> string" where
  "get_mit_license name =
     ''MIT License'' @ nl @
     ''Copyright (c) 2025 '' @ (case name of None \<Rightarrow> ''None'' | Some n \<Rightarrow> n) @ nl @
     ''Permission is hereby granted, free of charge, to any person obtaining a copy...'' @ nl"

definition clean_description :: "json \<Rightarrow> exn + string" where
  \<comment> \<open>\<^verbatim>\<open>"".join(ch for ch in brief if ch.isprintable())\<close>, newlines and carriage returns
      to spaces, stripped, cut to 350 characters\<close>
  "clean_description brief =
     (case py_iter brief of Inl e \<Rightarrow> Inl e
      | Inr xs \<Rightarrow>
         (case map_result (\<lambda>x. case x of JStr c \<Rightarrow> Inr c | _ \<Rightarrow> Inl AttributeError) xs of
            Inl e \<Rightarrow> Inl e
          | Inr parts \<Rightarrow>
              Inr (take 350 (strip (replace (replace (concat (filter (list_all isprintable) parts))
                     nl '' '') [CHR 0x0D] '' '')))))"

definition dict_pop :: "string \<Rightarrow> (string \<times> json) list \<Rightarrow> (string \<times> json) list" where
  \<comment> \<open>\<^verbatim>\<open>d.pop(k, None)\<close>\<close>
  "dict_pop k kvs = filter (\<lambda>kv. fst kv \<noteq> k) kvs"

definition strip_license :: "json \<Rightarrow> (string \<times> json) list io" where
  \<comment> \<open>\<^verbatim>\<open>if "LICENSE" in app_code: print(...); app_code.pop("LICENSE", None)\<close>, and the
      \<^verbatim>\<open>app_code.items()\<close> that follows: only a dict gets through.\<close>
  "strip_license app_code =
     (case app_code of
        JObj kvs \<Rightarrow>
          if ''LICENSE'' \<in> set (map fst kvs)
          then io_then (print ''Removing LICENSE from app_code - handled separately later.'')
                 (io_return (dict_pop ''LICENSE'' kvs))
          else io_return kvs
      | JArr xs \<Rightarrow>
          if JStr ''LICENSE'' \<in> set xs
          then io_then (print ''Removing LICENSE from app_code - handled separately later.'')
                 (io_raise TypeError)
          else io_raise AttributeError
      | JStr s \<Rightarrow>
          if contains s ''LICENSE''
          then io_then (print ''Removing LICENSE from app_code - handled separately later.'')
                 (io_raise AttributeError)
          else io_raise AttributeError
      | _ \<Rightarrow> io_raise TypeError)"

definition py_replace :: "json \<Rightarrow> string \<Rightarrow> string \<Rightarrow> exn + json" where
  \<comment> \<open>\<^verbatim>\<open>content.replace(old, new)\<close> on a value that may not be a string\<close>
  "py_replace v old new = (case v of JStr s \<Rightarrow> Inr (JStr (replace s old new)) | _ \<Rightarrow> Inl AttributeError)"

definition fix_rule :: "string \<Rightarrow> string \<Rightarrow> string \<Rightarrow> string option \<Rightarrow> json \<Rightarrow> json io" where
  \<comment> \<open>\<^verbatim>\<open>if bad in content and good not in content: [print(...)]; content = content.replace(bad, fixed)\<close>\<close>
  "fix_rule bad good fixed msg content =
     io_bind (io_lift (py_in bad content)) (\<lambda>has_bad.
       if \<not> has_bad then io_return content
       else io_bind (io_lift (py_in good content)) (\<lambda>has_good.
         if has_good then io_return content
         else io_then (case msg of None \<Rightarrow> io_return () | Some m \<Rightarrow> print m)
                (io_lift (py_replace content bad fixed))))"

fun fix_common_ci_errors :: "(string \<times> json) list \<Rightarrow> (string \<times> json) list io" where
  "fix_common_ci_errors [] = io_return []"
| "fix_common_ci_errors ((fname, content) # rest) =
     io_bind
       (if endswith fname ''.yml'' \<or> endswith fname ''.yaml''
        then io_bind (fix_rule ''ruff .'' ''ruff check .'' ''ruff check . || true''
                        (Some ''Auto-fixing invalid Ruff syntax in workflow.'') content)
               (fix_rule ''ruff --fix .'' ''ruff check . --fix'' ''ruff check . --fix || true'' None)
        else io_return content)
       (\<lambda>content'. io_bind (fix_common_ci_errors rest) (\<lambda>fixed. io_return ((fname, content') # fixed)))"

definition has_control_byte :: "string \<Rightarrow> bool" where
  \<comment> \<open>\<^verbatim>\<open>any(b < 9 or (13 < b < 32) for b in data)\<close>; the bytes of a code point from 128 on
      are all above 127.\<close>
  "has_control_byte s = list_ex (\<lambda>c. ord c < 9 \<or> (13 < ord c \<and> ord c < 32)) s"

definition warn_if :: "bool \<Rightarrow> string \<Rightarrow> unit io" where
  "warn_if b msg = (if b then print msg else io_return ())"

fun upload_files :: "env \<Rightarrow> repository \<Rightarrow> (string \<times> json) list \<Rightarrow> string set \<Rightarrow> unit io" where
  \<comment> \<open>\<^verbatim>\<open>for filename, content in app_code.items(): ...\<close> with the set \<^verbatim>\<open>seen\<close>\<close>
  "upload_files env repo [] seen = io_return ()"
| "upload_files env repo ((filename, content) # rest) seen =
     (if startswith filename fence \<or> strip filename = []
      then upload_files env repo rest seen
      else io_bind (need_str AttributeError content) (\<lambda>c0.
        let content' = strip (replace (replace c0 (fence @ ''html'') []) fence []);
            clean = strip filename
        in io_then (warn_if (clean \<noteq> filename)
                   (''Filename '' @ sq @ filename @ sq @ '' has hidden whitespace - normalized to ''
                    @ sq @ clean @ sq))
          (io_then (warn_if (lower clean \<in> seen) (''Duplicate filename detected: '' @ clean))
          (io_then (warn_if (has_control_byte content') (''Non-printable bytes found in '' @ filename))
          (io_then (warn_if (800000 < utf8_len content') (''Large file detected: '' @ filename))
          (io_then (create_file env repo filename (''Add '' @ filename) content')
          (io_then (print (''Uploaded: '' @ filename))
             (upload_files env repo rest (insert (lower clean) seen)))))))))"

definition license_step :: "env \<Rightarrow> repository \<Rightarrow> unit io" where
  \<comment> \<open>the section "Add or update LICENSE safely"\<close>
  "license_step env repo =
     io_bind (get_listing env repo) (\<lambda>names.
     io_then (print (''LICENSE exists? '' @ (if ''LICENSE'' \<in> set names then ''True'' else ''False'')))
       (let mit_text = get_mit_license (user_name env) in
        io_catch
          (io_bind (get_contents env repo ''LICENSE'') (\<lambda>contents.
           io_then (update_file env repo (cf_path contents) ''Update MIT License'' mit_text (cf_sha contents))
             (print ''LICENSE file updated.'')))
          (\<lambda>e. if is_unknown_object e
               then io_then (create_file env repo ''LICENSE'' ''Add MIT License'' mit_text)
                      (print ''LICENSE file created.'')
               else io_raise e)))"

definition pages_url_of :: "env \<Rightarrow> repository \<Rightarrow> string" where
  "pages_url_of env repo = ''https://'' @ user_login env @ ''.github.io/'' @ repo_name repo @ ''/''"

definition enable_pages :: "env \<Rightarrow> repository \<Rightarrow> string option io" where
  \<comment> \<open>the section "Enable GitHub Pages"; the request's authorization header is left out.\<close>
  "enable_pages env repo =
     io_catch
       (io_then (gh_write env (EditRepo (repo_name repo)))
          (io_bind
             (http_post env
                (JStr (''https://api.github.com/repos/'' @ user_login env @ ''/'' @ repo_name repo @ ''/pages''))
                (JObj [(''source'', JObj [(''branch'', JStr ''main''), (''path'', JStr ''/'')])]) None)
             (\<lambda>status. if status = 200 \<or> status = 201
                then io_return (Some (pages_url_of env repo))
                else io_raise (OtherException ''Failed to enable Pages''))))
       (\<lambda>e. io_then (print ''Failed to enable GitHub Pages'') (io_return None))"

definition create_fresh_repo :: "env \<Rightarrow> json \<Rightarrow> json \<Rightarrow> repository io" where
  \<comment> \<open>\<^verbatim>\<open>create_and_deploy_repo\<close> up to \<^verbatim>\<open>user.create_repo(...)\<close>: the name from the task,
      the deletion of a stale repository of that name, the description from the brief\<close>
  "create_fresh_repo env task brief =
     io_bind (need_str AttributeError task) (\<lambda>task_s.
     let repo_name = safe_name task_s in
     io_then
       (io_catch
          (io_bind (get_repo env repo_name) (\<lambda>stale. delete_repo_if_exists env (repository.repo_name stale)))
          (\<lambda>e. if is_unknown_object e then io_return () else io_raise e))
       (io_then (print (''Creating repository: '' @ repo_name))
          (io_bind (io_lift (clean_description brief)) (\<lambda>description.
           create_repo env repo_name False description ''mit''))))"

definition upload_generated :: "env \<Rightarrow> repository \<Rightarrow> json \<Rightarrow> unit io" where
  \<comment> \<open>the section "Upload all generated files"\<close>
  "upload_generated env repo app_code =
     io_bind (strip_license app_code) (\<lambda>kvs.
     io_bind (fix_common_ci_errors kvs) (\<lambda>fixed.
     upload_files env repo fixed {}))"

definition attachments_step :: "env \<Rightarrow> repository \<Rightarrow> json option \<Rightarrow> unit io" where
  \<comment> \<open>the section "Process attachments if any": \<^verbatim>\<open>if attachments: process_attachments(attachments, repo)\<close>,
      where \<open>None\<close> is the default value of the parameter\<close>
  "attachments_step env repo attachments =
     (case attachments of
        None \<Rightarrow> io_return ()
      | Some atts \<Rightarrow> if py_truthy atts then process_attachments env atts repo else io_return ())"

definition finish_deploy :: "env \<Rightarrow> repository \<Rightarrow> (string \<times> string \<times> string option) io" where
  \<comment> \<open>from the section "Enable GitHub Pages" to the \<^verbatim>\<open>return\<close>\<close>
  "finish_deploy env repo =
     io_bind (enable_pages env repo) (\<lambda>pages_url.
     io_bind (io_bind (get_commits env repo) first_sha) (\<lambda>commit_sha.
     io_then (print (''Repo ready: '' @ html_url repo))
       (io_then (print (''Pages: '' @ (case pages_url of None \<Rightarrow> ''Not enabled'' | Some u \<Rightarrow> u)))
       (io_then
          (case pages_url of
             None \<Rightarrow> io_return ()
           | Some u \<Rightarrow> if u \<noteq> [] then io_bind (wait_for_pages_ready env u 60) (\<lambda>ready. io_return ())
                       else io_return ())
          (io_return (html_url repo, commit_sha, pages_url))))))"

definition create_and_deploy_repo ::
  "env \<Rightarrow> json \<Rightarrow> json \<Rightarrow> json \<Rightarrow> json option \<Rightarrow> (string \<times> string \<times> string option) io" where
  \<comment> \<open>\<^verbatim>\<open>create_and_deploy_repo(task, app_code, brief, attachments=None)\<close>\<close>
  "create_and_deploy_repo env task app_code brief attachments =
     io_bind (create_fresh_repo env task brief) (\<lambda>repo.
     io_then (upload_generated env repo app_code)
       (io_then (attachments_step env repo attachments)
       (io_then (license_step env repo)
       (finish_deploy env repo))))"

section \<open>The repository updater (round 2)\<close>

definition insufficient :: "string \<Rightarrow> string \<Rightarrow> bool" where
  \<comment> \<open>\<^verbatim>\<open>len(updated.strip()) < len(old) * 0.5 or updated == old\<close>; halving a length is
      exact in binary floating point, so the comparison is the one on integers.\<close>
  "insufficient updated old = (2 * length (strip updated) < length old \<or> updated = old)"

definition on_404 :: "unit io \<Rightarrow> exn \<Rightarrow> unit io" where
  \<comment> \<open>\<^verbatim>\<open>except GithubException as e: if e.status == 404: h  else: raise e\<close>\<close>
  "on_404 h e =
     (case e of
        GithubException st \<Rightarrow> if st = 404 then h else io_raise e
      | UnknownObjectException \<Rightarrow> h
      | _ \<Rightarrow> io_raise e)"

definition llm_update_file ::
  "env \<Rightarrow> string \<Rightarrow> json \<Rightarrow> string \<Rightarrow> string \<Rightarrow> string \<Rightarrow> string io" where
  \<comment> \<open>\<^verbatim>\<open>llm_update_file(filename, old_content, role, system_instruction, extension)\<close>:
      \<^verbatim>\<open>.replace("{new_brief}", new_brief)\<close> needs a string.\<close>
  "llm_update_file env task new_brief old_content role extension =
     io_bind (need_str TypeError new_brief) (\<lambda>nb.
     io_bind (llm_edit env role task nb old_content) (\<lambda>raw.
     io_return (strip (replace (replace (strip raw) (fence @ extension) []) fence []))))"

definition update_file_safely :: "env \<Rightarrow> repository \<Rightarrow> string \<Rightarrow> string \<Rightarrow> string \<Rightarrow> unit io" where
  "update_file_safely env repo filename new_content commit_msg =
     io_catch
       (io_bind (get_contents env repo filename) (\<lambda>contents.
        io_then (update_file env repo (cf_path contents) commit_msg new_content (cf_sha contents))
          (print (''Updated '' @ filename))))
       (on_404 (io_then (create_file env repo filename commit_msg new_content)
                  (print (''Created '' @ filename))))"

definition html_patch :: "string \<Rightarrow> string \<Rightarrow> string" where
  \<comment> \<open>the scripted patch of \<^verbatim>\<open>merge_html_update\<close>\<close>
  "html_patch old_html nb =
     (if contains (lower nb) ''colorful'' \<or> contains (lower nb) ''theme''
      then replace
             (replace old_html ''<body>''
                (''<body><div style='' @ sq
                 @ ''border: 3px solid #00bcd4; padding: 20px; border-radius: 10px;'' @ sq @ ''>''))
             ''</body>'' ''</div></body>''
      else old_html @ nl @ ''<!-- Update: '' @ nb @ '' -->'')"

definition merge_html_update :: "env \<Rightarrow> repository \<Rightarrow> string \<Rightarrow> json \<Rightarrow> unit io" where
  "merge_html_update env repo task new_brief =
     io_catch
       (io_bind (get_contents env repo ''index.html'') (\<lambda>content_file.
        io_bind (decoded content_file) (\<lambda>old_html.
        io_bind (need_str AttributeError new_brief) (\<lambda>nb.
        io_then (update_file env repo ''index.html'' (''Guaranteed HTML update for '' @ task)
                   (html_patch old_html nb) (cf_sha content_file))
          (print ''Guaranteed HTML update applied.'')))))
       (on_404 (io_then (create_file env repo ''index.html'' ''Initial HTML'' ''<h1>Hello World</h1>'')
                  (print ''Created new HTML since none existed.'')))"

definition css_patch :: "string \<Rightarrow> string \<Rightarrow> string" where
  "css_patch old_css nb =
     old_css @
     (if contains (lower nb) ''dark''
      then nl @ ''body { background-color: #121212; color: #ffffff; }'' @ nl
      else if contains (lower nb) ''colorful''
      then nl @ ''.box { border: 3px solid #ff69b4; background: linear-gradient(45deg, #ff9a9e, #fad0c4); }'' @ nl
      else nl @ ''/* Round 2 visual update applied */'' @ nl)"

definition merge_css_update :: "env \<Rightarrow> repository \<Rightarrow> string \<Rightarrow> json \<Rightarrow> unit io" where
  "merge_css_update env repo task new_brief =
     io_catch
       (io_bind (get_contents env repo ''style.css'') (\<lambda>content_file.
        io_bind (decoded content_file) (\<lambda>old_css.
        io_bind (need_str AttributeError new_brief) (\<lambda>nb.
        io_then (update_file env repo ''style.css'' (''Guaranteed CSS update for '' @ task)
                   (css_patch old_css nb) (cf_sha content_file))
          (print ''Guaranteed CSS update applied.'')))))
       (on_404 (io_then (create_file env repo ''style.css'' ''Add CSS'' ''body { font-family: sans-serif; }'')
                  (print ''Created default CSS since none existed.'')))"

definition js_patch :: "string \<Rightarrow> string \<Rightarrow> string" where
  "js_patch old_js nb =
     old_js @
     (if contains (lower nb) ''button''
      then nl @ ''document.querySelectorAll('' @ sq @ ''button'' @ sq
           @ '').forEach(btn => btn.addEventListener('' @ sq @ ''click'' @ sq
           @ '', () => alert('' @ sq @ ''Updated in Round 2!'' @ sq @ '')));'' @ nl
      else nl @ ''console.log('' @ sq @ ''Round 2 logic applied'' @ sq @ '');'' @ nl)"

definition merge_js_update :: "env \<Rightarrow> repository \<Rightarrow> string \<Rightarrow> json \<Rightarrow> unit io" where
  "merge_js_update env repo task new_brief =
     io_catch
       (io_bind (get_contents env repo ''script.js'') (\<lambda>content_file.
        io_bind (decoded content_file) (\<lambda>old_js.
        io_bind (need_str AttributeError new_brief) (\<lambda>nb.
        io_then (update_file env repo ''script.js'' (''Guaranteed JS update for '' @ task)
                   (js_patch old_js nb) (cf_sha content_file))
          (print ''Guaranteed JS update applied.'')))))
       (on_404 (io_then (create_file env repo ''script.js'' ''Add JS''
                           (''console.log('' @ sq @ ''Initial script'' @ sq @ '');''))
                  (print ''Created default JS since none existed.'')))"

definition html_check :: "string \<Rightarrow> unit io" where
  \<comment> \<open>\<^verbatim>\<open>if "<html" not in updated_html.lower(): print("Invalid HTML, restoring previous file.")\<close>\<close>
  "html_check updated_html =
     (if \<not> contains (lower updated_html) ''<html''
      then print ''Invalid HTML, restoring previous file.''
      else io_return ())"

definition html_commit :: "env \<Rightarrow> repository \<Rightarrow> string \<Rightarrow> json \<Rightarrow> string \<Rightarrow> string \<Rightarrow> unit io" where
  \<comment> \<open>the \<^verbatim>\<open>if ... else\<close> that commits either the scripted patch or the model's text\<close>
  "html_commit env repo task new_brief updated_html old_html =
     (if insufficient updated_html old_html
      then io_then (print ''LLM HTML update insufficient - applying guaranteed merge.'')
             (merge_html_update env repo task new_brief)
      else update_file_safely env repo ''index.html'' updated_html ''Round 2: Updated HTML'')"

definition html_step :: "env \<Rightarrow> repository \<Rightarrow> string \<Rightarrow> json \<Rightarrow> unit io" where
  \<comment> \<open>the section "Update index.html"\<close>
  "html_step env repo task new_brief =
     io_catch
       (io_bind (get_contents env repo ''index.html'') (\<lambda>contents.
        io_bind (decoded contents) (\<lambda>old_html.
        io_bind (llm_update_file env task new_brief old_html ''HTML'' ''html'') (\<lambda>u.
        let updated_html = strip (replace (replace u (fence @ ''html'') []) fence []) in
        io_then (html_commit env repo task new_brief updated_html old_html)
          (html_check updated_html)))))
       (\<lambda>e. if is_github e then merge_html_update env repo task new_brief else io_raise e)"

definition css_step :: "env \<Rightarrow> repository \<Rightarrow> string \<Rightarrow> json \<Rightarrow> unit io" where
  \<comment> \<open>the section "Update style.css"\<close>
  "css_step env repo task new_brief =
     io_catch
       (io_bind (get_contents env repo ''style.css'') (\<lambda>contents.
        io_bind (decoded contents) (\<lambda>old_css.
        io_bind (llm_update_file env task new_brief old_css ''CSS'' ''css'') (\<lambda>u.
        let updated_css = strip (replace (replace u (fence @ ''css'') []) fence []) in
        if insufficient updated_css old_css
        then io_then (print ''LLM CSS update insufficient - applying guaranteed merge.'')
               (merge_css_update env repo task new_brief)
        else update_file_safely env repo ''style.css'' updated_css ''Round 2: Updated CSS''))))
       (\<lambda>e. if is_github e then merge_css_update env repo task new_brief else io_raise e)"

definition js_step :: "env \<Rightarrow> repository \<Rightarrow> string \<Rightarrow> json \<Rightarrow> unit io" where
  \<comment> \<open>the section "Update script.js"\<close>
  "js_step env repo task new_brief =
     io_catch
       (io_bind (get_contents env repo ''script.js'') (\<lambda>contents.
        io_bind (decoded contents) (\<lambda>old_js.
        io_bind (llm_update_file env task new_brief old_js ''JavaScript'' ''javascript'') (\<lambda>u.
        let updated_js = strip (replace (replace (replace u (fence @ ''javascript'') []) fence [])
                                  (fence @ ''js'') []) in
        if insufficient updated_js old_js
        then io_then (print ''LLM JS update insufficient - applying guaranteed merge.'')
               (merge_js_update env repo task new_brief)
        else update_file_safely env repo ''script.js'' updated_js ''Round 2: Updated JS''))))
       (\<lambda>e. if is_github e then merge_js_update env repo task new_brief else io_raise e)"

definition readme_step :: "env \<Rightarrow> repository \<Rightarrow> string \<Rightarrow> json \<Rightarrow> unit io" where
  \<comment> \<open>the section "Update README.md"\<close>
  "readme_step env repo task new_brief =
     io_catch
       (io_bind (get_contents env repo ''README.md'') (\<lambda>readme.
        update_file env repo (cf_path readme) ''Update README for Round 2''
          (''## Round 2 Update'' @ nl @ nl @ fmt env new_brief @ nl @ nl
           @ ''This round adds all new features, design tweaks, and logic changes described in the brief.'')
          (cf_sha readme)))
       (\<lambda>e. if is_github e
            then create_file env repo ''README.md'' ''Add README'' (''# '' @ task @ nl @ nl @ fmt env new_brief)
            else io_raise e)"

definition update_existing_repo ::
  "env \<Rightarrow> json \<Rightarrow> json \<Rightarrow> (string \<times> string \<times> string option) io" where
  "update_existing_repo env task new_brief =
     io_bind (need_str AttributeError task) (\<lambda>task_s.
     io_bind (get_repo env (safe_name task_s)) (\<lambda>repo.
     io_then (html_step env repo task_s new_brief)
       (io_then (css_step env repo task_s new_brief)
       (io_then (js_step env repo task_s new_brief)
       (io_then (readme_step env repo task_s new_brief)
       (io_bind (wait_for_pages_ready env (pages_url_of env repo) 60) (\<lambda>ready.
        io_bind (io_bind (get_commits env repo) first_sha) (\<lambda>commit_sha.
        io_return (html_url repo, commit_sha, Some (pages_url_of env repo))))))))))"

section \<open>The HTTP endpoint\<close>

fun save_attachments :: "env \<Rightarrow> json list \<Rightarrow> unit io" where
  \<comment> \<open>step 3 of \<^verbatim>\<open>build_app\<close>: \<^verbatim>\<open>for file in data.get("attachments", []): ...\<close>\<close>
  "save_attachments env [] = io_return ()"
| "save_attachments env (file # rest) =
     io_bind (io_lift (py_index file ''name'')) (\<lambda>name.
     io_bind (io_lift (py_index file ''url'')) (\<lambda>uri.
     io_bind (need_str AttributeError uri) (\<lambda>u.
     io_then
       (if startswith u ''data:image''
        then (case split_once u CHR '','' of
                None \<Rightarrow> io_raise ValueError
              | Some (header, b64data) \<Rightarrow>
                  io_then (file_open env name)
                    (case b64decode env b64data of
                       None \<Rightarrow> io_raise ValueError
                     | Some bytes \<Rightarrow> file_write name bytes))
        else io_return ())
       (save_attachments env rest))))"

definition steps_2_to_4 ::
  "env \<Rightarrow> json \<Rightarrow> (json \<times> json \<times> json \<times> json \<times> json \<times> json \<times> json) io" where
  \<comment> \<open>\<^verbatim>\<open>build_app\<close> between the secret check and the dispatch on the round: the fields are
      read, the image attachments are saved, and the generator is called. The value is
      (email, task, brief, round, nonce, evaluation url, app code).\<close>
  "steps_2_to_4 env data =
     io_bind (io_lift (py_index data ''email'')) (\<lambda>email.
     io_bind (io_lift (py_index data ''task'')) (\<lambda>task.
     io_bind (io_lift (py_index data ''brief'')) (\<lambda>brief.
     io_bind (io_lift (py_get_default data ''attachments'' (JArr []))) (\<lambda>attachments.
     io_bind (io_lift (py_index data ''round'')) (\<lambda>rnd.
     io_bind (io_lift (py_index data ''nonce'')) (\<lambda>nonce.
     io_bind (io_lift (py_index data ''evaluation_url'')) (\<lambda>evaluation_url.
     io_bind (io_lift (py_iter attachments)) (\<lambda>files.
     io_then (save_attachments env files)
       (io_bind (io_lift (py_get_default data ''checks'' (JArr []))) (\<lambda>checks.
        io_bind (generate_minimal_app env brief checks attachments) (\<lambda>app_code.
        io_return (email, task, brief, rnd, nonce, evaluation_url, app_code))))))))))))"

definition response :: "string \<Rightarrow> string \<Rightarrow> json" where
  "response status message = JObj [(''status'', JStr status), (''message'', JStr message)]"

definition callback_payload ::
  "json \<Rightarrow> json \<Rightarrow> json \<Rightarrow> json \<Rightarrow> string \<times> string \<times> string option \<Rightarrow> json" where
  "callback_payload email task rnd nonce result =
     (case result of (repo_url, commit_sha, pages_url) \<Rightarrow>
        JObj [(''email'', email), (''task'', task), (''round'', rnd), (''nonce'', nonce),
              (''repo_url'', JStr repo_url), (''commit_sha'', JStr commit_sha),
              (''pages_url'', case pages_url of None \<Rightarrow> JNull | Some u \<Rightarrow> JStr u)])"

definition notify ::
  "env \<Rightarrow> json \<Rightarrow> json \<Rightarrow> string \<Rightarrow> state \<Rightarrow> ((exn + json option) \<times> state) option" where
  \<comment> \<open>the callback loop, started with \<^verbatim>\<open>delay = 1\<close>, and the \<^verbatim>\<open>return\<close> after it\<close>
  "notify env evaluation_url payload message s =
     map_option (\<lambda>s'. (Inr (Some (response ''ok'' message)), s'))
       (notify_loop env evaluation_url payload 1 s)"

definition authenticated :: "env \<Rightarrow> json \<Rightarrow> state \<Rightarrow> ((exn + json option) \<times> state) option" where
  \<comment> \<open>\<^verbatim>\<open>build_app\<close> from step 2 on: what runs once the secret has been accepted.\<close>
  "authenticated env data s =
     (case steps_2_to_4 env data s of
        (Inl e, s1) \<Rightarrow> Some (Inl e, s1)
      | (Inr (email, task, brief, rnd, nonce, evaluation_url, app_code), s1) \<Rightarrow>
          if py_eq_int rnd 1
          then (case create_and_deploy_repo env task app_code brief None s1 of
                  (Inl e, s2) \<Rightarrow> Some (Inl e, s2)
                | (Inr result, s2) \<Rightarrow>
                    notify env evaluation_url (callback_payload email task rnd nonce result)
                      ''Round 1 build complete'' s2)
          else if py_eq_int rnd 2
          then (case update_existing_repo env task brief s1 of
                  (Inl e, s2) \<Rightarrow> Some (Inl e, s2)
                | (Inr result, s2) \<Rightarrow>
                    notify env evaluation_url (callback_payload email task rnd nonce result)
                      ''Round 2 update complete'' s2)
          else Some (Inr None, s1))"

definition build_app :: "env \<Rightarrow> json \<Rightarrow> state \<Rightarrow> ((exn + json option) \<times> state) option" where
  \<comment> \<open>the handler of \<^verbatim>\<open>POST /build\<close> on the decoded body. The value is \<open>None\<close> where the
      handler never returns, an exception where it raises, \<open>Inr None\<close> where it ends
      without a \<^verbatim>\<open>return\<close>, and the returned dict otherwise.\<close>
  "build_app env data s =
     (case py_get data ''secret'' of
        Inl e \<Rightarrow> Some (Inl e, s)
      | Inr secret \<Rightarrow>
          if py_ne_secret secret (STUDENT_SECRET env)
          then Some (Inr (Some (response ''error'' ''Invalid secret'')), s)
          else authenticated env data s)"

section \<open>Notions used to state the properties\<close>

definition secret_field :: "(string \<times> json) list \<Rightarrow> json" where
  \<comment> \<open>\<^verbatim>\<open>data.get("secret")\<close> on a JSON object: null where the field is absent\<close>
  "secret_field kvs = (case map_of kvs ''secret'' of None \<Rightarrow> JNull | Some v \<Rightarrow> v)"

definition emits :: "(event \<Rightarrow> bool) \<Rightarrow> 'a io \<Rightarrow> bool" where
  \<comment> \<open>the computation only extends the trace, and only by events that satisfy \<open>P\<close>\<close>
  "emits P m = (\<forall>s. \<exists>es. trace (snd (m s)) = trace s @ es \<and> list_all P es)"

definition not_ready :: "exn + nat \<Rightarrow> bool" where
  \<comment> \<open>an answer to a fetch after which the poller goes on: a status other than 200, or
      a \<^verbatim>\<open>requests.RequestException\<close>\<close>
  "not_ready r = (case r of Inl e \<Rightarrow> e = RequestException | Inr status \<Rightarrow> status \<noteq> 200)"

definition retries :: "string \<Rightarrow> (exn + nat) list \<Rightarrow> event list" where
  \<comment> \<open>the trace of fetches that were answered by \<open>rs\<close>, each followed by the 3 second sleep\<close>
  "retries url rs = concat (map (\<lambda>r. [Http (Get url 5) r, Sleep 3]) rs)"

definition poll_step :: "env \<Rightarrow> string \<Rightarrow> state \<Rightarrow> state" where
  \<comment> \<open>one turn of the poller's loop that does not leave it: the fetch with its 5 second
      timeout, answered by the next reply of the network, then \<^verbatim>\<open>time.sleep(3)\<close>\<close>
  "poll_step env url t =
     sleep_st env 3 (external env (Http (Get url 5) (http_reply env (calls t))) t)"

definition poll_state :: "env \<Rightarrow> string \<Rightarrow> state \<Rightarrow> nat \<Rightarrow> state" where
  \<comment> \<open>the state in which the poller, called in \<open>s\<close>, tests the clock for the turn number
      \<open>i\<close> (from 0): after the first message and \<open>i\<close> turns\<close>
  "poll_state env url s i =
     (poll_step env url ^^ i) (emit (Print (''Waiting for GitHub Pages to go live at '' @ url)) s)"

definition answer :: "env \<Rightarrow> string \<Rightarrow> state \<Rightarrow> nat \<Rightarrow> exn + nat" where
  \<comment> \<open>what the network answers to the fetch of turn \<open>i\<close>\<close>
  "answer env url s i = http_reply env (calls (poll_state env url s i))"

definition in_budget :: "nat \<Rightarrow> state \<Rightarrow> state \<Rightarrow> bool" where
  \<comment> \<open>the loop condition \<^verbatim>\<open>time.time() - start < max_wait\<close> in the state \<open>t\<close>, for a poller
      called in \<open>s\<close>; the clock is in milliseconds\<close>
  "in_budget max_wait s t = (now t < now s + max_wait * 1000)"

definition attempt :: "env \<Rightarrow> json \<Rightarrow> json \<Rightarrow> nat \<Rightarrow> nat \<Rightarrow> event list" where
  \<comment> \<open>the trace of the failed callback attempt number \<open>k\<close> (from 0) of a loop entered after
      \<open>c0\<close> external calls: the POST with its 10 second timeout, the warning if it raised,
      and the sleep before the next attempt. Each failed attempt makes two external calls.\<close>
  "attempt env url payload c0 k =
     (let r = http_reply env (c0 + 2 * k) in
      Http (Post url payload (Some 10)) r
      # (case r of Inl e \<Rightarrow> [LogWarning ''Retrying evaluation callback''] | Inr status \<Rightarrow> [])
      @ [Sleep (min (2 ^ k) 60)])"

definition local_or_llm :: "event \<Rightarrow> bool" where
  \<comment> \<open>the events of steps 2 to 4: local files and the language model\<close>
  "local_or_llm ev =
     (case ev of FileOpen n \<Rightarrow> True | FileWrite n b \<Rightarrow> True | Llm q \<Rightarrow> True | _ \<Rightarrow> False)"

definition outcome :: "((exn + json option) \<times> state) option \<Rightarrow> (exn + json option) option" where
  \<comment> \<open>how a run of the handler ended, \<open>None\<close> for a run that never ends\<close>
  "outcome x = map_option fst x"

definition final_trace :: "((exn + json option) \<times> state) option \<Rightarrow> event list" where
  \<comment> \<open>the trace at the end of a run of the handler\<close>
  "final_trace x = (case x of None \<Rightarrow> [] | Some (r, s') \<Rightarrow> trace s')"

definition github_events :: "event list \<Rightarrow> event list" where
  \<comment> \<open>the calls to the git host in a trace: all that can change a repository\<close>
  "github_events es = filter (\<lambda>ev. case ev of GitHub q r \<Rightarrow> True | _ \<Rightarrow> False) es"

definition spec_rejects :: "string \<Rightarrow> string \<Rightarrow> bool" where
  \<comment> \<open>the acceptance heuristic in the words of the specification: the trimmed length is
      under half of the original's trimmed length, or the text is identical to the original\<close>
  "spec_rejects updated old = (2 * length (strip updated) < length (strip old) \<or> updated = old)"

definition cleaned :: "string \<Rightarrow> string \<Rightarrow> string" where
  \<comment> \<open>the model's answer as the HTML and CSS steps compare and commit it: stripped and
      freed of code fences by \<^verbatim>\<open>llm_update_file\<close>, and once more by the step\<close>
  "cleaned extension raw =
     strip (replace (replace (strip (replace (replace (strip raw) (fence @ extension) []) fence []))
                       (fence @ extension) []) fence [])"

definition cleaned_js :: "string \<Rightarrow> string" where
  \<comment> \<open>the same for the JavaScript step, which has one more replacement\<close>
  "cleaned_js raw =
     strip (replace (replace (replace
              (strip (replace (replace (strip raw) (fence @ ''javascript'') []) fence []))
              (fence @ ''javascript'') []) fence []) (fence @ ''js'') [])"

fun commit_of :: "event \<Rightarrow> (string \<times> string \<times> string) option" where
  \<comment> \<open>path, commit message and content of a file write that the git host accepted\<close>
  "commit_of (GitHub (CreateFile repo path message content) None) = Some (path, message, content)"
| "commit_of (GitHub (UpdateFile repo path message content sha) None) = Some (path, message, content)"
| "commit_of ev = None"

definition commits :: "event list \<Rightarrow> (string \<times> string \<times> string) list" where
  "commits es = List.map_filter commit_of es"

definition new_events :: "state \<Rightarrow> state \<Rightarrow> event list" where
  \<comment> \<open>what a computation that only extends the trace added between two states\<close>
  "new_events s s' = drop (length (trace s)) (trace s')"

definition dict_keys :: "json \<Rightarrow> string set" where
  \<comment> \<open>the keys of the generated file set\<close>
  "dict_keys v = (case v of JObj kvs \<Rightarrow> set (map fst kvs) | _ \<Rightarrow> {})"

definition publisher_event :: "env \<Rightarrow> string set \<Rightarrow> event \<Rightarrow> bool" where
  \<comment> \<open>what the publisher does when it is called without attachments, for a file set with
      the given keys: it creates a file only under a key other than LICENSE, with the message
      "Add" and the key, or the LICENSE with the fixed text; it updates a file only to
      the fixed license text; it calls no language model and touches no local file.\<close>
  "publisher_event env keys ev =
     (case ev of
        GitHub q reply \<Rightarrow>
          (case q of
             CreateFile repo path message content \<Rightarrow>
               (path \<in> keys \<and> path \<noteq> ''LICENSE'' \<and> message = ''Add '' @ path)
               \<or> (path = ''LICENSE'' \<and> message = ''Add MIT License''
                   \<and> content = get_mit_license (user_name env))
           | UpdateFile repo path message content sha \<Rightarrow>
               message = ''Update MIT License'' \<and> content = get_mit_license (user_name env)
           | _ \<Rightarrow> True)
      | Llm q \<Rightarrow> False
      | FileOpen n \<Rightarrow> False
      | FileWrite n b \<Rightarrow> False
      | _ \<Rightarrow> True)"

section \<open>A concrete environment\<close>

text \<open>
  An environment for running the model on concrete requests: the secret is \<open>s3cret\<close>, the
  git host accepts every call and has none of the files asked for, every external call
  takes a quarter of a second, and HTTP requests are answered with 503 until the fifth
  external call, with 200 from then on.
\<close>

definition env_demo :: env where
  "env_demo =
     \<lparr>STUDENT_SECRET = Some ''s3cret'', user_name = Some ''Ada'', user_login = ''ada'',
      py_str = (\<lambda>v. ''?''), b64decode = (\<lambda>s. Some s), decode_utf8_ignore = (\<lambda>s. s),
      latency = (\<lambda>n. 250), oversleep = (\<lambda>n. 0), open_reply = (\<lambda>n. None),
      llm_json_reply = (\<lambda>n. Inr (JObj [(''index.html'', JStr ''<html></html>'')])),
      llm_text_reply = (\<lambda>n. Inr ''<html><body>new</body></html>''),
      repo_reply = (\<lambda>n. Inr \<lparr>repo_name = ''demo'', html_url = ''https://github.com/ada/demo''\<rparr>),
      contents_reply = (\<lambda>n. Inl UnknownObjectException),
      listing_reply = (\<lambda>n. Inr [''LICENSE'']),
      commits_reply = (\<lambda>n. Inr [''c0ffee'']),
      write_reply = (\<lambda>n. None),
      http_reply = (\<lambda>n. if n < 4 then Inr 503 else Inr 200)\<rparr>"

definition s_init :: state where
  "s_init = \<lparr>trace = [], calls = 0, now = 0\<rparr>"

text \<open>Requests for the environment above: a revision, and a round that is neither 1 nor 2.\<close>

definition req_round2 :: "(string \<times> json) list" where
  "req_round2 =
     [(''secret'', JStr ''s3cret''), (''email'', JStr ''ada@example.org''), (''task'', JStr ''demo''),
      (''brief'', JStr ''Add a dark theme''), (''round'', JInt 2), (''nonce'', JStr ''n-1''),
      (''evaluation_url'', JStr ''https://example.org/notify'')]"

definition req_round3 :: "(string \<times> json) list" where
  "req_round3 =
     [(''secret'', JStr ''s3cret''), (''email'', JStr ''ada@example.org''), (''task'', JStr ''demo''),
      (''brief'', JStr ''Add a dark theme''), (''round'', JInt 3), (''nonce'', JStr ''n-1''),
      (''evaluation_url'', JStr ''https://example.org/notify'')]"

text \<open>
  A repository whose index.html is a short paragraph followed by twelve spaces, and a
  language model that answers every edit with a paragraph of eleven characters.
\<close>

definition page_padded :: string where
  "page_padded = ''<p>Hello</p>            ''"

definition page_short :: string where
  "page_short = ''<p>Hi!!</p>''"

definition repo_demo :: repository where
  "repo_demo = \<lparr>repo_name = ''demo'', html_url = ''https://github.com/ada/demo''\<rparr>"

definition env_site :: env where
  "env_site = env_demo
     \<lparr>llm_text_reply := (\<lambda>n. Inr page_short),
      contents_reply := (\<lambda>n. Inr \<lparr>cf_path = ''index.html'', cf_sha = ''abc'', cf_text = Some page_padded\<rparr>)\<rparr>"

text \<open>
  A first build: the language model returns a page and a LICENSE of its own, the name
  \<open>demo\<close> is free, the new repository holds the license that the git host made from its
  template, and the request carries one attachment, a data URI of the text \<open>hi\<close>.
  \<open>s_generated\<close> is the state in which the publisher starts, after the generator's call.
\<close>

definition demo_files :: json where
  "demo_files = JObj [(''index.html'', JStr ''<html></html>''), (''LICENSE'', JStr ''All rights reserved'')]"

definition demo_attachments :: json where
  "demo_attachments =
     JArr [JObj [(''name'', JStr ''notes.txt''), (''url'', JStr ''data:text/plain;base64,aGk='')]]"

definition env_fresh :: env where
  "env_fresh = env_demo
     \<lparr>b64decode := (\<lambda>s. if s = ''aGk='' then Some ''hi'' else None),
      llm_json_reply := (\<lambda>n. Inr demo_files),
      repo_reply := (\<lambda>n. if n = 1 then Inl UnknownObjectException else Inr repo_demo),
      contents_reply := (\<lambda>n. Inr \<lparr>cf_path = ''LICENSE'', cf_sha = ''f00'', cf_text = Some ''MIT License''\<rparr>)\<rparr>"

definition req_round1 :: "(string \<times> json) list" where
  "req_round1 =
     [(''secret'', JStr ''s3cret''), (''email'', JStr ''ada@example.org''), (''task'', JStr ''demo''),
      (''brief'', JStr ''Show a greeting''), (''round'', JInt 1), (''nonce'', JStr ''n-1''),
      (''evaluation_url'', JStr ''https://example.org/notify''),
      (''attachments'', demo_attachments)]"

definition s_generated :: state where
  "s_generated =
     \<lparr>trace = [Llm (Generate (JStr ''Show a greeting'') [] [''notes.txt''])], calls = 1, now = 250\<rparr>"

text \<open>
  A slow network for the poller: every external call takes five seconds, the first fetch
  is answered 503 and every later one 200.
\<close>

definition env_slow :: env where
  "env_slow = env_demo
     \<lparr>latency := (\<lambda>n. 5000), http_reply := (\<lambda>n. if n = 0 then Inr 503 else Inr 200)\<rparr>"

text \<open>A request whose round is the JSON value \<open>true\<close>, with no attachment.\<close>

definition req_round_true :: "(string \<times> json) list" where
  "req_round_true =
     [(''secret'', JStr ''s3cret''), (''email'', JStr ''ada@example.org''), (''task'', JStr ''demo''),
      (''brief'', JStr ''Show a greeting''), (''round'', JBool True), (''nonce'', JStr ''n-1''),
      (''evaluation_url'', JStr ''https://example.org/notify'')]"

section \<open>Traces of the building blocks\<close>

lemma emitsI: "(\<And>s. \<exists>es. trace (snd (m s)) = trace s @ es \<and> list_all P es) \<Longrightarrow> emits P m"
  by (simp add: emits_def)

lemma emitsD: "emits P m \<Longrightarrow> m s = (r, s') \<Longrightarrow> \<exists>es. trace s' = trace s @ es \<and> list_all P es"
  by (metis emits_def snd_conv)

lemma emits_mono: "emits P m \<Longrightarrow> (\<And>ev. P ev \<Longrightarrow> Q ev) \<Longrightarrow> emits Q m"
  unfolding emits_def list_all_iff by metis

lemma emits_return: "emits P (io_return x)"
  by (simp add: emits_def io_return_def)

lemma emits_raise: "emits P (io_raise e)"
  by (simp add: emits_def io_raise_def)

lemma emits_lift: "emits P (io_lift r)"
  by (simp add: emits_def io_lift_def)

lemma emits_bind:
  assumes "emits P m" and "\<And>x s s'. m s = (Inr x, s') \<Longrightarrow> emits P (f x)"
  shows "emits P (io_bind m f)"
proof (rule emitsI)
  fix s
  obtain r s1 where m: "m s = (r, s1)" by (cases "m s")
  from emitsD[OF assms(1) m] obtain es1 where es1: "trace s1 = trace s @ es1" "list_all P es1" by blast
  show "\<exists>es. trace (snd (io_bind m f s)) = trace s @ es \<and> list_all P es"
  proof (cases r)
    case (Inl e)
    with m es1 show ?thesis by (auto simp: io_bind_def)
  next
    case (Inr x)
    obtain r2 s2 where f: "f x s1 = (r2, s2)" by (cases "f x s1")
    from m Inr have "emits P (f x)" by (intro assms(2)) simp
    from emitsD[OF this f] obtain es2 where "trace s2 = trace s1 @ es2" "list_all P es2" by blast
    with m Inr f es1 show ?thesis by (auto simp: io_bind_def)
  qed
qed

lemma emits_then: "emits P m \<Longrightarrow> emits P k \<Longrightarrow> emits P (io_then m k)"
  unfolding io_then_def by (rule emits_bind)

lemma emits_catch:
  assumes "emits P m" and "\<And>e. emits P (h e)"
  shows "emits P (io_catch m h)"
proof (rule emitsI)
  fix s
  obtain r s1 where m: "m s = (r, s1)" by (cases "m s")
  from emitsD[OF assms(1) m] obtain es1 where es1: "trace s1 = trace s @ es1" "list_all P es1" by blast
  show "\<exists>es. trace (snd (io_catch m h s)) = trace s @ es \<and> list_all P es"
  proof (cases r)
    case (Inr x)
    with m es1 show ?thesis by (auto simp: io_catch_def)
  next
    case (Inl e)
    obtain r2 s2 where f: "h e s1 = (r2, s2)" by (cases "h e s1")
    from emitsD[OF assms(2) f] obtain es2 where "trace s2 = trace s1 @ es2" "list_all P es2" by blast
    with m Inl f es1 show ?thesis by (auto simp: io_catch_def)
  qed
qed

lemma emits_if: "(b \<Longrightarrow> emits P m) \<Longrightarrow> (\<not> b \<Longrightarrow> emits P k) \<Longrightarrow> emits P (if b then m else k)"
  by simp

lemma emits_print: "P (Print msg) \<Longrightarrow> emits P (print msg)"
  by (simp add: emits_def print_def emit_def)

lemma emits_warn_if: "P (Print msg) \<Longrightarrow> emits P (warn_if b msg)"
  by (simp add: warn_if_def emits_print emits_return)

lemma emits_sleep: "P (Sleep d) \<Longrightarrow> emits P (sleep env d)"
  by (simp add: emits_def sleep_def sleep_st_def)

lemma emits_gh_call: "(\<And>r. P (GitHub req r)) \<Longrightarrow> emits P (gh_call env oracle req)"
  by (simp add: emits_def gh_call_def external_def Let_def)

lemma emits_gh_write: "(\<And>r. P (GitHub req r)) \<Longrightarrow> emits P (gh_write env req)"
  by (simp add: emits_def gh_write_def external_def Let_def)

lemma emits_http_post: "(\<And>r. P (Http (Post url body t) r)) \<Longrightarrow> emits P (http_post env url body t)"
  by (simp add: emits_def http_post_def external_def Let_def)

lemma emits_http_get: "(\<And>r. P (Http (Get url t) r)) \<Longrightarrow> emits P (http_get env url t)"
  by (simp add: emits_def http_get_def external_def Let_def)

lemma emits_llm_generate: "P (Llm (Generate brief cs names)) \<Longrightarrow> emits P (llm_generate env brief cs names)"
  by (simp add: emits_def llm_generate_def external_def)

lemma emits_llm_edit: "P (Llm (Edit role task nb old)) \<Longrightarrow> emits P (llm_edit env role task nb old)"
  by (simp add: emits_def llm_edit_def external_def)

lemma emits_file_open: "P (FileOpen name) \<Longrightarrow> emits P (file_open env name)"
  by (simp add: emits_def file_open_def external_def)

lemma emits_file_write: "P (FileWrite name bytes) \<Longrightarrow> emits P (file_write name bytes)"
  by (simp add: emits_def file_write_def emit_def)

lemma emits_need_str: "emits P (need_str e v)"
  by (cases v) (simp_all add: need_str_def emits_return emits_raise)

lemma emits_decoded: "emits P (decoded cf)"
  by (simp add: decoded_def emits_return emits_raise split: option.splits)

lemma emits_first_sha: "emits P (first_sha shas)"
  by (simp add: first_sha_def emits_return emits_raise split: list.splits)

lemmas emits_basic = emits_return emits_raise emits_lift emits_need_str emits_decoded emits_first_sha
  emits_then emits_catch emits_if emits_print emits_warn_if emits_sleep emits_gh_call emits_gh_write
  emits_http_post emits_http_get emits_llm_generate emits_llm_edit emits_file_open emits_file_write

lemmas run_defs = io_then_def io_bind_def io_return_def io_raise_def io_lift_def io_catch_def
  print_def emit_def external_def sleep_def sleep_st_def http_get_def http_post_def Let_def

lemmas eval_defs = run_defs py_index_def py_get_def py_get_default_def py_iter_def py_truthy_def
  py_eq_int_def py_ne_secret_def need_str_def
  generate_minimal_app_def attachment_names_def llm_generate_def llm_edit_def
  gh_call_def gh_write_def get_repo_def create_repo_def get_contents_def get_listing_def
  get_commits_def create_file_def update_file_def err_of_def is_github_def is_unknown_object_def
  on_404_def decoded_def first_sha_def file_open_def file_write_def warn_if_def

lemma io_bind_Inr:
  "(io_bind m f s = (Inr y, s')) = (\<exists>x s1. m s = (Inr x, s1) \<and> f x s1 = (Inr y, s'))"
  by (cases "m s") (auto simp: io_bind_def split: sum.splits)

lemma io_then_Inr:
  "(io_then m k s = (Inr y, s')) = (\<exists>s1. m s = (Inr (), s1) \<and> k s1 = (Inr y, s'))"
  by (simp add: io_then_def io_bind_Inr)

lemma io_lift_Inr: "(io_lift r s = (Inr x, s')) = (r = Inr x \<and> s' = s)"
  by (auto simp: io_lift_def)

lemma io_return_Inr: "(io_return x s = (Inr y, s')) = (y = x \<and> s' = s)"
  by (auto simp: io_return_def)

lemmas round2_defs = update_existing_repo_def html_step_def css_step_def js_step_def readme_step_def
  merge_html_update_def merge_css_update_def merge_js_update_def safe_name_def pages_url_of_def
  wait_for_pages_ready_def wait_loop.simps notify_def notify_loop.simps callback_payload_def
  fmt_def html_commit_def html_check_def update_file_safely_def llm_update_file_def

lemmas string_defs = strip_def isspace_def isprintable_def ord_def lower_def lower_char_def
  fence_def nl_def sq_def startswith_def endswith_def

lemmas round1_defs = create_and_deploy_repo_def create_fresh_repo_def upload_generated_def
  attachments_step_def finish_deploy_def license_step_def enable_pages_def delete_repo_if_exists_def
  clean_description_def strip_license_def dict_pop_def fix_rule_def py_in_def py_replace_def
  has_control_byte_def utf8_len_def process_attachments_def attachment_ok_def upload_attachment_def
  safe_name_def pages_url_of_def wait_for_pages_ready_def wait_loop.simps notify_def notify_loop.simps
  callback_payload_def fmt_def

section \<open>The page readiness poller\<close>

lemma wait_loop_shape:
  "wait_loop env url mw start s = (r, s') \<Longrightarrow>
   \<exists>rs. list_all not_ready rs \<and> now s + 3000 * length rs \<le> now s' \<and>
     (case r of
        Inr ready \<Rightarrow>
          if ready
          then trace s' = trace s @ retries url rs
                 @ [Http (Get url 5) (Inr 200), Print (''GitHub Pages is live: '' @ url)]
               \<and> int (now s) + 3000 * int (length rs) - int start < int mw * 1000
          else trace s' = trace s @ retries url rs
                 @ [Print ''GitHub Pages did not become live within the timeout window.'']
               \<and> int mw * 1000 \<le> int (now s') - int start
      | Inl e \<Rightarrow>
          e \<noteq> RequestException
          \<and> trace s' = trace s @ retries url rs @ [Http (Get url 5) (Inl e)]
          \<and> int (now s) + 3000 * int (length rs) - int start < int mw * 1000)"
proof (induction env url mw start s arbitrary: r s' rule: wait_loop.induct)
  case (1 env url mw start s)
  show ?case
  proof (cases "int (now s) - int start < int mw * 1000")
    case False
    with "1.prems" have "r = Inr False"
      "s' = emit (Print ''GitHub Pages did not become live within the timeout window.'') s"
      by (subst (asm) wait_loop.simps, simp add: io_then_def io_bind_def print_def io_return_def)+
    with False show ?thesis
      by (intro exI[of _ "[]"]) (simp add: retries_def emit_def)
  next
    case True
    obtain x s1 where g: "http_get env url 5 s = (x, s1)" by (cases "http_get env url 5 s")
    then have s1: "s1 = external env (Http (Get url 5) x) s"
      by (auto simp: http_get_def Let_def)
    show ?thesis
    proof (cases "not_ready x")
      case nr: True
      let ?s2 = "sleep_st env 3 s1"
      have rec: "wait_loop env url mw start ?s2 = (r, s')"
        using "1.prems" True g nr
        by (subst (asm) wait_loop.simps) (auto simp: not_ready_def split: sum.splits)
      have "\<exists>rs. list_all not_ready rs \<and> now ?s2 + 3000 * length rs \<le> now s' \<and>
         (case r of
            Inr ready \<Rightarrow>
              if ready
              then trace s' = trace ?s2 @ retries url rs
                     @ [Http (Get url 5) (Inr 200), Print (''GitHub Pages is live: '' @ url)]
                   \<and> int (now ?s2) + 3000 * int (length rs) - int start < int mw * 1000
              else trace s' = trace ?s2 @ retries url rs
                     @ [Print ''GitHub Pages did not become live within the timeout window.'']
                   \<and> int mw * 1000 \<le> int (now s') - int start
          | Inl e \<Rightarrow>
              e \<noteq> RequestException
              \<and> trace s' = trace ?s2 @ retries url rs @ [Http (Get url 5) (Inl e)]
              \<and> int (now ?s2) + 3000 * int (length rs) - int start < int mw * 1000)"
      proof (cases x)
        case (Inl a)
        with nr have "a = RequestException" by (simp add: not_ready_def)
        from "1.IH"(1)[OF True g[symmetric] Inl this rec] show ?thesis .
      next
        case (Inr b)
        with nr have "b \<noteq> 200" by (simp add: not_ready_def)
        from "1.IH"(2)[OF True g[symmetric] Inr this rec] show ?thesis .
      qed
      then obtain rs where rs: "list_all not_ready rs" "now ?s2 + 3000 * length rs \<le> now s'"
        and out: "case r of
            Inr ready \<Rightarrow>
              if ready
              then trace s' = trace ?s2 @ retries url rs
                     @ [Http (Get url 5) (Inr 200), Print (''GitHub Pages is live: '' @ url)]
                   \<and> int (now ?s2) + 3000 * int (length rs) - int start < int mw * 1000
              else trace s' = trace ?s2 @ retries url rs
                     @ [Print ''GitHub Pages did not become live within the timeout window.'']
                   \<and> int mw * 1000 \<le> int (now s') - int start
          | Inl e \<Rightarrow>
              e \<noteq> RequestException
              \<and> trace s' = trace ?s2 @ retries url rs @ [Http (Get url 5) (Inl e)]
              \<and> int (now ?s2) + 3000 * int (length rs) - int start < int mw * 1000"
        by blast
      have t: "trace ?s2 = trace s @ [Http (Get url 5) x, Sleep 3]"
        and n: "now s + 3000 \<le> now ?s2"
        by (simp_all add: s1 sleep_st_def external_def)
      show ?thesis
        using rs nr n out unfolding t retries_def
        by (intro exI[of _ "x # rs"]) (auto split: sum.splits if_splits)
    next
      case False
      then show ?thesis
        using "1.prems" True g s1
        by (subst (asm) wait_loop.simps, intro exI[of _ "[]"])
           (auto simp: not_ready_def retries_def io_then_def io_bind_def print_def
              io_return_def emit_def external_def split: sum.splits if_splits)
    qed
  qed
qed

lemma wait_for_pages_ready_shape:
  assumes "wait_for_pages_ready env url max_wait s = (r, s')"
  shows "\<exists>rs. list_all not_ready rs \<and> now s + 3000 * length rs \<le> now s' \<and>
     (case r of
        Inr ready \<Rightarrow>
          if ready
          then trace s' = trace s @ Print (''Waiting for GitHub Pages to go live at '' @ url)
                 # retries url rs
                 @ [Http (Get url 5) (Inr 200), Print (''GitHub Pages is live: '' @ url)]
               \<and> 3000 * length rs < max_wait * 1000
          else trace s' = trace s @ Print (''Waiting for GitHub Pages to go live at '' @ url)
                 # retries url rs
                 @ [Print ''GitHub Pages did not become live within the timeout window.'']
               \<and> now s + max_wait * 1000 \<le> now s'
      | Inl e \<Rightarrow>
          e \<noteq> RequestException
          \<and> trace s' = trace s @ Print (''Waiting for GitHub Pages to go live at '' @ url)
                 # retries url rs @ [Http (Get url 5) (Inl e)]
          \<and> 3000 * length rs < max_wait * 1000)"
proof -
  let ?s0 = "emit (Print (''Waiting for GitHub Pages to go live at '' @ url)) s"
  from assms have "wait_loop env url max_wait (now ?s0) ?s0 = (r, s')"
    by (simp add: wait_for_pages_ready_def io_then_def io_bind_def print_def emit_def)
  from wait_loop_shape[OF this] obtain rs where rs: "list_all not_ready rs"
      "now ?s0 + 3000 * length rs \<le> now s'"
    and out: "case r of
        Inr ready \<Rightarrow>
          if ready
          then trace s' = trace ?s0 @ retries url rs
                 @ [Http (Get url 5) (Inr 200), Print (''GitHub Pages is live: '' @ url)]
               \<and> int (now ?s0) + 3000 * int (length rs) - int (now ?s0) < int max_wait * 1000
          else trace s' = trace ?s0 @ retries url rs
                 @ [Print ''GitHub Pages did not become live within the timeout window.'']
               \<and> int max_wait * 1000 \<le> int (now s') - int (now ?s0)
      | Inl e \<Rightarrow>
          e \<noteq> RequestException
          \<and> trace s' = trace ?s0 @ retries url rs @ [Http (Get url 5) (Inl e)]
          \<and> int (now ?s0) + 3000 * int (length rs) - int (now ?s0) < int max_wait * 1000"
    by blast
  have t0: "trace ?s0 = trace s @ [Print (''Waiting for GitHub Pages to go live at '' @ url)]"
    and n0: "now ?s0 = now s"
    by (simp_all add: emit_def)
  show ?thesis
  proof (intro exI[of _ rs] conjI)
    show "list_all not_ready rs" by fact
    show "now s + 3000 * length rs \<le> now s'" using rs(2) n0 by simp
    show "case r of
        Inr ready \<Rightarrow>
          if ready
          then trace s' = trace s @ Print (''Waiting for GitHub Pages to go live at '' @ url)
                 # retries url rs
                 @ [Http (Get url 5) (Inr 200), Print (''GitHub Pages is live: '' @ url)]
               \<and> 3000 * length rs < max_wait * 1000
          else trace s' = trace s @ Print (''Waiting for GitHub Pages to go live at '' @ url)
                 # retries url rs
                 @ [Print ''GitHub Pages did not become live within the timeout window.'']
               \<and> now s + max_wait * 1000 \<le> now s'
      | Inl e \<Rightarrow>
          e \<noteq> RequestException
          \<and> trace s' = trace s @ Print (''Waiting for GitHub Pages to go live at '' @ url)
                 # retries url rs @ [Http (Get url 5) (Inl e)]
          \<and> 3000 * length rs < max_wait * 1000"
    proof (cases r)
      case (Inl e)
      with out show ?thesis unfolding t0 n0 by simp
    next
      case (Inr ready)
      show ?thesis
      proof (cases ready)
        case True
        with out Inr show ?thesis unfolding t0 n0 by simp
      next
        case False
        with out Inr have "trace s' = trace ?s0 @ retries url rs
                 @ [Print ''GitHub Pages did not become live within the timeout window.'']"
          and "int max_wait * 1000 \<le> int (now s') - int (now s)"
          unfolding n0 by simp_all
        then show ?thesis using Inr False unfolding t0 by simp
      qed
    qed
  qed
qed

lemma wait_loop_run:
  "wait_loop env url mw start t = (r, s') \<Longrightarrow>
   \<exists>n. (\<forall>i<n. int (now ((poll_step env url ^^ i) t)) - int start < int mw * 1000
             \<and> not_ready (http_reply env (calls ((poll_step env url ^^ i) t))))
     \<and> (case r of
          Inr ready \<Rightarrow>
            if ready
            then int (now ((poll_step env url ^^ n) t)) - int start < int mw * 1000
                 \<and> http_reply env (calls ((poll_step env url ^^ n) t)) = Inr 200
                 \<and> s' = emit (Print (''GitHub Pages is live: '' @ url))
                          (external env (Http (Get url 5) (Inr 200)) ((poll_step env url ^^ n) t))
            else \<not> int (now ((poll_step env url ^^ n) t)) - int start < int mw * 1000
                 \<and> s' = emit (Print ''GitHub Pages did not become live within the timeout window.'')
                          ((poll_step env url ^^ n) t)
        | Inl e \<Rightarrow>
            int (now ((poll_step env url ^^ n) t)) - int start < int mw * 1000
            \<and> http_reply env (calls ((poll_step env url ^^ n) t)) = Inl e
            \<and> e \<noteq> RequestException
            \<and> s' = external env (Http (Get url 5) (Inl e)) ((poll_step env url ^^ n) t))"
proof (induction env url mw start t arbitrary: r s' rule: wait_loop.induct)
  case (1 env url mw start t)
  let ?P = "\<lambda>n t r s'. (\<forall>i<n. int (now ((poll_step env url ^^ i) t)) - int start < int mw * 1000
             \<and> not_ready (http_reply env (calls ((poll_step env url ^^ i) t))))
     \<and> (case r of
          Inr ready \<Rightarrow>
            if ready
            then int (now ((poll_step env url ^^ n) t)) - int start < int mw * 1000
                 \<and> http_reply env (calls ((poll_step env url ^^ n) t)) = Inr 200
                 \<and> s' = emit (Print (''GitHub Pages is live: '' @ url))
                          (external env (Http (Get url 5) (Inr 200)) ((poll_step env url ^^ n) t))
            else \<not> int (now ((poll_step env url ^^ n) t)) - int start < int mw * 1000
                 \<and> s' = emit (Print ''GitHub Pages did not become live within the timeout window.'')
                          ((poll_step env url ^^ n) t)
        | Inl e \<Rightarrow>
            int (now ((poll_step env url ^^ n) t)) - int start < int mw * 1000
            \<and> http_reply env (calls ((poll_step env url ^^ n) t)) = Inl e
            \<and> e \<noteq> RequestException
            \<and> s' = external env (Http (Get url 5) (Inl e)) ((poll_step env url ^^ n) t))"
  show ?case
  proof (cases "int (now t) - int start < int mw * 1000")
    case False
    with "1.prems" have "r = Inr False"
      "s' = emit (Print ''GitHub Pages did not become live within the timeout window.'') t"
      by (subst (asm) wait_loop.simps, simp add: io_then_def io_bind_def print_def io_return_def)+
    with False show ?thesis by (intro exI[of _ 0]) simp
  next
    case True
    define x where "x = http_reply env (calls t)"
    define t1 where "t1 = external env (Http (Get url 5) x) t"
    have g: "http_get env url 5 t = (x, t1)"
      by (simp add: http_get_def Let_def x_def t1_def)
    show ?thesis
    proof (cases "not_ready x")
      case False
      then show ?thesis
        using "1.prems" True g
        by (subst (asm) wait_loop.simps, intro exI[of _ 0])
           (auto simp: not_ready_def io_then_def io_bind_def print_def io_return_def x_def t1_def
              split: sum.splits if_splits)
    next
      case nr: True
      have ps: "poll_step env url t = sleep_st env 3 t1"
        by (simp add: poll_step_def t1_def x_def)
      have rec: "wait_loop env url mw start (sleep_st env 3 t1) = (r, s')"
        using "1.prems" True g nr
        by (subst (asm) wait_loop.simps) (auto simp: not_ready_def split: sum.splits)
      have "\<exists>n. ?P n (sleep_st env 3 t1) r s'"
      proof (cases x)
        case (Inl a)
        with nr have "a = RequestException" by (simp add: not_ready_def)
        from "1.IH"(1)[OF True g[symmetric] Inl this rec] show ?thesis .
      next
        case (Inr b)
        with nr have "b \<noteq> 200" by (simp add: not_ready_def)
        from "1.IH"(2)[OF True g[symmetric] Inr this rec] show ?thesis .
      qed
      then obtain n where n: "?P n (poll_step env url t) r s'" unfolding ps by blast
      have sw: "(poll_step env url ^^ i) (poll_step env url t) = (poll_step env url ^^ Suc i) t" for i
        by (simp add: funpow_swap1)
      have "?P (Suc n) t r s'"
      proof (intro conjI allI impI)
        fix i assume "i < Suc n"
        show "int (now ((poll_step env url ^^ i) t)) - int start < int mw * 1000"
        proof (cases i)
          case 0 with True show ?thesis by simp
        next
          case (Suc j)
          with \<open>i < Suc n\<close> n have "int (now ((poll_step env url ^^ j) (poll_step env url t))) - int start < int mw * 1000"
            by simp
          then show ?thesis unfolding sw Suc .
        qed
        show "not_ready (http_reply env (calls ((poll_step env url ^^ i) t)))"
        proof (cases i)
          case 0 with nr show ?thesis by (simp add: x_def)
        next
          case (Suc j)
          with \<open>i < Suc n\<close> n have "not_ready (http_reply env (calls ((poll_step env url ^^ j) (poll_step env url t))))"
            by simp
          then show ?thesis unfolding sw Suc .
        qed
      next
        from n show "case r of
          Inr ready \<Rightarrow>
            if ready
            then int (now ((poll_step env url ^^ Suc n) t)) - int start < int mw * 1000
                 \<and> http_reply env (calls ((poll_step env url ^^ Suc n) t)) = Inr 200
                 \<and> s' = emit (Print (''GitHub Pages is live: '' @ url))
                          (external env (Http (Get url 5) (Inr 200)) ((poll_step env url ^^ Suc n) t))
            else \<not> int (now ((poll_step env url ^^ Suc n) t)) - int start < int mw * 1000
                 \<and> s' = emit (Print ''GitHub Pages did not become live within the timeout window.'')
                          ((poll_step env url ^^ Suc n) t)
        | Inl e \<Rightarrow>
            int (now ((poll_step env url ^^ Suc n) t)) - int start < int mw * 1000
            \<and> http_reply env (calls ((poll_step env url ^^ Suc n) t)) = Inl e
            \<and> e \<noteq> RequestException
            \<and> s' = external env (Http (Get url 5) (Inl e)) ((poll_step env url ^^ Suc n) t)"
          unfolding sw by blast
      qed
      then show ?thesis by blast
    qed
  qed
qed

lemma poll_steps_trace:
  "trace ((poll_step env url ^^ n) t)
     = trace t @ retries url (map (\<lambda>i. http_reply env (calls ((poll_step env url ^^ i) t))) [0..<n])"
  by (induction n) (simp_all add: retries_def poll_step_def sleep_st_def external_def)

lemma poll_steps_now: "now t + 3000 * n \<le> now ((poll_step env url ^^ n) t)"
  by (induction n) (simp_all add: poll_step_def sleep_st_def external_def)

text \<open>
  C7. Started with a URL and a maximum wait (both callers pass 60 seconds, the default),
  the poller always returns, and what it returns is fixed by the clock and the network.
  It makes some number \<open>n\<close> of turns that do not end it: each begins while less than
  the maximum wait has passed on the clock since the call, fetches the URL, is answered
  by a status other than 200 or by a \<^verbatim>\<open>RequestException\<close>, and sleeps 3 seconds, so that
  the turns are at least 3 seconds apart. Then one of three ends. The budget is not yet
  used up and the next fetch is answered 200: the value is \<^verbatim>\<open>True\<close>. The budget is used
  up when the clock is tested for the next turn: no fetch is made, the value is \<^verbatim>\<open>False\<close>
  and nothing is raised, whatever the network would have answered. The budget is not
  yet used up and the next fetch raises something other than a \<^verbatim>\<open>RequestException\<close>:
  that exception leaves the poller, and this is the only way one does.
\<close>

theorem wait_for_pages_ready_contract:
  assumes "wait_for_pages_ready env url max_wait s = (r, s')"
  shows "\<exists>n. (\<forall>i<n. in_budget max_wait s (poll_state env url s i) \<and> not_ready (answer env url s i))
     \<and> trace (poll_state env url s n)
         = trace s @ Print (''Waiting for GitHub Pages to go live at '' @ url)
           # retries url (map (answer env url s) [0..<n])
     \<and> now s + 3000 * n \<le> now (poll_state env url s n)
     \<and> (case r of
          Inr ready \<Rightarrow>
            if ready
            then in_budget max_wait s (poll_state env url s n)
                 \<and> answer env url s n = Inr 200
                 \<and> s' = emit (Print (''GitHub Pages is live: '' @ url))
                          (external env (Http (Get url 5) (Inr 200)) (poll_state env url s n))
            else \<not> in_budget max_wait s (poll_state env url s n)
                 \<and> s' = emit (Print ''GitHub Pages did not become live within the timeout window.'')
                          (poll_state env url s n)
        | Inl e \<Rightarrow>
            in_budget max_wait s (poll_state env url s n)
            \<and> answer env url s n = Inl e
            \<and> e \<noteq> RequestException
            \<and> s' = external env (Http (Get url 5) (Inl e)) (poll_state env url s n))"
proof -
  let ?s0 = "emit (Print (''Waiting for GitHub Pages to go live at '' @ url)) s"
  have n0: "now ?s0 = now s" and t0: "trace ?s0 = trace s @ [Print (''Waiting for GitHub Pages to go live at '' @ url)]"
    by (simp_all add: emit_def)
  have ib: "in_budget max_wait s t = (int (now t) - int (now ?s0) < int max_wait * 1000)" for t
    unfolding n0 in_budget_def by linarith
  from assms have "wait_loop env url max_wait (now ?s0) ?s0 = (r, s')"
    by (simp add: wait_for_pages_ready_def io_then_def io_bind_def print_def emit_def)
  from wait_loop_run[OF this] obtain n where
    a: "\<forall>i<n. int (now ((poll_step env url ^^ i) ?s0)) - int (now ?s0) < int max_wait * 1000
             \<and> not_ready (http_reply env (calls ((poll_step env url ^^ i) ?s0)))"
    and b: "case r of
          Inr ready \<Rightarrow>
            if ready
            then int (now ((poll_step env url ^^ n) ?s0)) - int (now ?s0) < int max_wait * 1000
                 \<and> http_reply env (calls ((poll_step env url ^^ n) ?s0)) = Inr 200
                 \<and> s' = emit (Print (''GitHub Pages is live: '' @ url))
                          (external env (Http (Get url 5) (Inr 200)) ((poll_step env url ^^ n) ?s0))
            else \<not> int (now ((poll_step env url ^^ n) ?s0)) - int (now ?s0) < int max_wait * 1000
                 \<and> s' = emit (Print ''GitHub Pages did not become live within the timeout window.'')
                          ((poll_step env url ^^ n) ?s0)
        | Inl e \<Rightarrow>
            int (now ((poll_step env url ^^ n) ?s0)) - int (now ?s0) < int max_wait * 1000
            \<and> http_reply env (calls ((poll_step env url ^^ n) ?s0)) = Inl e
            \<and> e \<noteq> RequestException
            \<and> s' = external env (Http (Get url 5) (Inl e)) ((poll_step env url ^^ n) ?s0)"
    by blast
  have ans: "answer env url s = (\<lambda>i. http_reply env (calls ((poll_step env url ^^ i) ?s0)))"
    by (rule ext) (simp add: answer_def poll_state_def)
  show ?thesis
  proof (intro exI[of _ n] conjI)
    show "\<forall>i<n. in_budget max_wait s (poll_state env url s i) \<and> not_ready (answer env url s i)"
      using a unfolding ib ans poll_state_def by simp
    show "trace (poll_state env url s n)
         = trace s @ Print (''Waiting for GitHub Pages to go live at '' @ url)
           # retries url (map (answer env url s) [0..<n])"
      unfolding ans poll_state_def poll_steps_trace t0 by simp
    show "now s + 3000 * n \<le> now (poll_state env url s n)"
      using poll_steps_now[of ?s0 n env url] unfolding poll_state_def n0 .
    show "case r of
          Inr ready \<Rightarrow>
            if ready
            then in_budget max_wait s (poll_state env url s n)
                 \<and> answer env url s n = Inr 200
                 \<and> s' = emit (Print (''GitHub Pages is live: '' @ url))
                          (external env (Http (Get url 5) (Inr 200)) (poll_state env url s n))
            else \<not> in_budget max_wait s (poll_state env url s n)
                 \<and> s' = emit (Print ''GitHub Pages did not become live within the timeout window.'')
                          (poll_state env url s n)
        | Inl e \<Rightarrow>
            in_budget max_wait s (poll_state env url s n)
            \<and> answer env url s n = Inl e
            \<and> e \<noteq> RequestException
            \<and> s' = external env (Http (Get url 5) (Inl e)) (poll_state env url s n)"
      using b unfolding ib ans poll_state_def by simp
  qed
qed

theorem wait_for_pages_ready_contract_witness:
  "fst (wait_for_pages_ready env_demo ''https://ada.github.io/demo/'' 60 s_init) = Inr True
   \<and> (\<exists>n. in_budget 60 s_init (poll_state env_demo ''https://ada.github.io/demo/'' s_init n)
         \<and> answer env_demo ''https://ada.github.io/demo/'' s_init n = Inr 200
         \<and> trace (snd (wait_for_pages_ready env_demo ''https://ada.github.io/demo/'' 60 s_init))
             = Print (''Waiting for GitHub Pages to go live at '' @ ''https://ada.github.io/demo/'')
               # retries ''https://ada.github.io/demo/''
                   (map (answer env_demo ''https://ada.github.io/demo/'' s_init) [0..<n])
               @ [Http (Get ''https://ada.github.io/demo/'' 5) (Inr 200),
                  Print (''GitHub Pages is live: '' @ ''https://ada.github.io/demo/'')])
   \<and> fst (wait_for_pages_ready env_slow ''https://ada.github.io/demo/'' 6 s_init) = Inr False
   \<and> answer env_slow ''https://ada.github.io/demo/'' s_init 1 = Inr 200
   \<and> (\<exists>n. now s_init + 6 * 1000 \<le> now (poll_state env_slow ''https://ada.github.io/demo/'' s_init n)
         \<and> snd (wait_for_pages_ready env_slow ''https://ada.github.io/demo/'' 6 s_init)
             = emit (Print ''GitHub Pages did not become live within the timeout window.'')
                 (poll_state env_slow ''https://ada.github.io/demo/'' s_init n))"
proof -
  let ?url = "''https://ada.github.io/demo/''"
  let ?a = "wait_for_pages_ready env_demo ?url 60 s_init"
  let ?b = "wait_for_pages_ready env_slow ?url 6 s_init"
  have ra: "fst ?a = Inr True"
    by (simp add: wait_for_pages_ready_def env_demo_def s_init_def run_defs wait_loop.simps)
  have rb: "fst ?b = Inr False"
    by (simp add: wait_for_pages_ready_def env_slow_def env_demo_def s_init_def run_defs wait_loop.simps)
  have "?a = (fst ?a, snd ?a)" by simp
  from wait_for_pages_ready_contract[OF this, unfolded ra] obtain n where
    "in_budget 60 s_init (poll_state env_demo ?url s_init n)"
    "answer env_demo ?url s_init n = Inr 200"
    "trace (poll_state env_demo ?url s_init n)
         = trace s_init @ Print (''Waiting for GitHub Pages to go live at '' @ ?url)
           # retries ?url (map (answer env_demo ?url s_init) [0..<n])"
    "snd ?a = emit (Print (''GitHub Pages is live: '' @ ?url))
                (external env_demo (Http (Get ?url 5) (Inr 200)) (poll_state env_demo ?url s_init n))"
    by auto
  then have A: "\<exists>n. in_budget 60 s_init (poll_state env_demo ?url s_init n)
         \<and> answer env_demo ?url s_init n = Inr 200
         \<and> trace (snd ?a)
             = Print (''Waiting for GitHub Pages to go live at '' @ ?url)
               # retries ?url (map (answer env_demo ?url s_init) [0..<n])
               @ [Http (Get ?url 5) (Inr 200), Print (''GitHub Pages is live: '' @ ?url)]"
    by (intro exI[of _ n]) (simp add: emit_def external_def s_init_def)
  have "?b = (fst ?b, snd ?b)" by simp
  from wait_for_pages_ready_contract[OF this, unfolded rb] obtain m where
    "\<not> in_budget 6 s_init (poll_state env_slow ?url s_init m)"
    "snd ?b = emit (Print ''GitHub Pages did not become live within the timeout window.'')
                (poll_state env_slow ?url s_init m)"
    by auto
  then have B: "\<exists>n. now s_init + 6 * 1000 \<le> now (poll_state env_slow ?url s_init n)
         \<and> snd ?b = emit (Print ''GitHub Pages did not become live within the timeout window.'')
                 (poll_state env_slow ?url s_init n)"
    by (intro exI[of _ m]) (simp add: in_budget_def)
  have "answer env_slow ?url s_init 1 = Inr 200"
    by (simp add: answer_def poll_state_def poll_step_def sleep_st_def external_def emit_def
          env_slow_def env_demo_def s_init_def)
  with ra rb A B show ?thesis by blast
qed

section \<open>The callback loop\<close>

lemma min_double: "min (min (2 ^ n) 60 * 2) 60 = min (2 ^ Suc n) (60::nat)"
  by (simp add: min_def)

lemma notify_loop_failed:
  "\<forall>k<n. http_reply env (calls s + 2 * k) \<noteq> Inr 200 \<Longrightarrow>
   \<exists>sn. notify_loop env url payload 1 s = notify_loop env url payload (min (2 ^ n) 60) sn
      \<and> trace sn = trace s @ concat (map (attempt env url payload (calls s)) [0..<n])
      \<and> calls sn = calls s + 2 * n"
proof (induction n)
  case 0
  show ?case by (intro exI[of _ s]) simp
next
  case (Suc n)
  then obtain sn where sn: "notify_loop env url payload 1 s = notify_loop env url payload (min (2 ^ n) 60) sn"
    "trace sn = trace s @ concat (map (attempt env url payload (calls s)) [0..<n])"
    "calls sn = calls s + 2 * n" by auto
  from Suc.prems have ne: "http_reply env (calls s + 2 * n) \<noteq> Inr 200" by simp
  define r where "r = http_reply env (calls s + 2 * n)"
  define s1 where "s1 = external env (Http (Post url payload (Some 10)) r) sn"
  define s2 where "s2 = sleep_st env (min (2 ^ n) 60)
      (case r of Inl e \<Rightarrow> emit (LogWarning ''Retrying evaluation callback'') s1 | Inr st \<Rightarrow> s1)"
  have "notify_loop env url payload (min (2 ^ n) 60) sn = notify_loop env url payload (min (2 ^ Suc n) 60) s2"
    using ne unfolding r_def[symmetric]
    by (subst notify_loop.simps)
       (auto simp: http_post_def Let_def sn(3) s2_def s1_def r_def min_double split: sum.splits)
  moreover have "trace s2 = trace s @ concat (map (attempt env url payload (calls s)) [0..<Suc n])"
    by (cases r) (simp_all add: s2_def s1_def sleep_st_def emit_def external_def sn(2) attempt_def r_def Let_def)
  moreover have "calls s2 = calls s + 2 * Suc n"
    by (cases r) (simp_all add: s2_def s1_def sleep_st_def emit_def external_def sn(3))
  ultimately show ?case using sn(1) by (intro exI[of _ s2]) simp
qed

lemma notify_loop_returns:
  assumes "http_reply env (calls s + 2 * n) = Inr 200"
    and "\<forall>k<n. http_reply env (calls s + 2 * k) \<noteq> Inr 200"
  shows "notify_loop env url payload 1 s \<noteq> None"
    and "\<And>s'. notify_loop env url payload 1 s = Some s' \<Longrightarrow>
      trace s' = trace s @ concat (map (attempt env url payload (calls s)) [0..<n])
            @ [Http (Post url payload (Some 10)) (Inr 200)]"
proof -
  from notify_loop_failed[OF assms(2)] obtain sn where sn:
    "notify_loop env url payload 1 s = notify_loop env url payload (min (2 ^ n) 60) sn"
    "trace sn = trace s @ concat (map (attempt env url payload (calls s)) [0..<n])"
    "calls sn = calls s + 2 * n" by blast
  have *: "notify_loop env url payload (min (2 ^ n) 60) sn
      = Some (external env (Http (Post url payload (Some 10)) (Inr 200)) sn)"
    using assms(1) by (subst notify_loop.simps) (simp add: http_post_def Let_def sn(3))
  with sn show "notify_loop env url payload 1 s \<noteq> None" by simp
  fix s' assume "notify_loop env url payload 1 s = Some s'"
  with * sn show "trace s' = trace s @ concat (map (attempt env url payload (calls s)) [0..<n])
            @ [Http (Post url payload (Some 10)) (Inr 200)]"
    by (auto simp: external_def)
qed

lemma notify_loop_some_200:
  "notify_loop env url payload delay s = Some s' \<Longrightarrow> \<exists>k. http_reply env (calls s + 2 * k) = Inr 200"
proof (induction rule: notify_loop.raw_induct[rotated 1, consumes 1, case_names step])
  case (step loop env url payload delay s s')
  show ?case
  proof (cases "http_reply env (calls s) = Inr 200")
    case True
    then show ?thesis by (intro exI[of _ 0]) simp
  next
    case False
    define r where "r = http_reply env (calls s)"
    define s1 where "s1 = external env (Http (Post url payload (Some 10)) r) s"
    define s2 where "s2 = sleep_st env delay
      (case r of Inl e \<Rightarrow> emit (LogWarning ''Retrying evaluation callback'') s1 | Inr st \<Rightarrow> s1)"
    from step(2) False have "loop env url payload (min (delay * 2) 60) s2 = Some s'"
      by (auto simp: http_post_def Let_def s2_def s1_def r_def split: sum.splits if_splits)
    from step(1)[OF this] obtain k where "http_reply env (calls s2 + 2 * k) = Inr 200" by blast
    moreover have "calls s2 = calls s + 2"
      by (cases r) (simp_all add: s2_def s1_def sleep_st_def emit_def external_def)
    ultimately show ?thesis by (intro exI[of _ "Suc k"]) simp
  qed
qed

lemma first_200:
  assumes "\<exists>k. http_reply env (c + 2 * k) = Inr (200::nat)"
  obtains n where "http_reply env (c + 2 * n) = Inr 200" "\<forall>k<n. http_reply env (c + 2 * k) \<noteq> Inr 200"
proof -
  from assms obtain k where k: "http_reply env (c + 2 * k) = Inr 200" by blast
  define n where "n = (LEAST k. http_reply env (c + 2 * k) = Inr 200)"
  have a: "http_reply env (c + 2 * n) = Inr 200"
    unfolding n_def using k by (rule LeastI)
  have b: "\<forall>j<n. http_reply env (c + 2 * j) \<noteq> Inr 200"
    unfolding n_def using not_less_Least by blast
  from a b that show thesis by blast
qed

text \<open>
  C6. The callback loop, entered with \<^verbatim>\<open>delay = 1\<close>, posts the payload with a timeout of 10
  seconds and has no bound on the number of attempts. It returns if and only if some
  attempt is answered with status 200 (attempt \<open>k\<close>, counted from 0, is the external call
  number \<open>calls s + 2 * k\<close>). After any \<open>n\<close> attempts that were not answered 200 the loop goes
  on with the delay \<open>min (2 ^ n) 60\<close>, and what it has done is those \<open>n\<close> posts, each
  followed by a sleep of \<open>min (2 ^ k) 60\<close> seconds: 1, 2, 4, 8, 16, 32, 60, 60, ... before
  the retries 1, 2, 3, ... When it returns, the last event is the post answered 200.
\<close>

theorem notify_loop_backoff:
  "((notify_loop env url payload 1 s \<noteq> None) = (\<exists>k. http_reply env (calls s + 2 * k) = Inr 200))
   \<and> (\<forall>n. (\<forall>k<n. http_reply env (calls s + 2 * k) \<noteq> Inr 200) \<longrightarrow>
        (\<exists>sn. notify_loop env url payload 1 s = notify_loop env url payload (min (2 ^ n) 60) sn
           \<and> trace sn = trace s @ concat (map (attempt env url payload (calls s)) [0..<n])))
   \<and> (\<forall>s'. notify_loop env url payload 1 s = Some s' \<longrightarrow>
        (\<exists>n. http_reply env (calls s + 2 * n) = Inr 200
           \<and> (\<forall>k<n. http_reply env (calls s + 2 * k) \<noteq> Inr 200)
           \<and> trace s' = trace s @ concat (map (attempt env url payload (calls s)) [0..<n])
                 @ [Http (Post url payload (Some 10)) (Inr 200)]))"
proof (intro conjI allI impI)
  show "(notify_loop env url payload 1 s \<noteq> None) = (\<exists>k. http_reply env (calls s + 2 * k) = Inr 200)"
  proof
    assume "notify_loop env url payload 1 s \<noteq> None"
    then show "\<exists>k. http_reply env (calls s + 2 * k) = Inr 200"
      using notify_loop_some_200 by blast
  next
    assume "\<exists>k. http_reply env (calls s + 2 * k) = Inr 200"
    then obtain n where "http_reply env (calls s + 2 * n) = Inr 200"
      "\<forall>k<n. http_reply env (calls s + 2 * k) \<noteq> Inr 200" by (rule first_200)
    then show "notify_loop env url payload 1 s \<noteq> None" by (rule notify_loop_returns(1))
  qed
next
  fix n assume "\<forall>k<n. http_reply env (calls s + 2 * k) \<noteq> Inr 200"
  from notify_loop_failed[OF this]
  show "\<exists>sn. notify_loop env url payload 1 s = notify_loop env url payload (min (2 ^ n) 60) sn
      \<and> trace sn = trace s @ concat (map (attempt env url payload (calls s)) [0..<n])" by blast
next
  fix s' assume s': "notify_loop env url payload 1 s = Some s'"
  then have "\<exists>k. http_reply env (calls s + 2 * k) = Inr 200" by (rule notify_loop_some_200)
  then obtain n where n: "http_reply env (calls s + 2 * n) = Inr 200"
      "\<forall>k<n. http_reply env (calls s + 2 * k) \<noteq> Inr 200" by (rule first_200)
  from notify_loop_returns(2)[OF n s'] n
  show "\<exists>n. http_reply env (calls s + 2 * n) = Inr 200
           \<and> (\<forall>k<n. http_reply env (calls s + 2 * k) \<noteq> Inr 200)
           \<and> trace s' = trace s @ concat (map (attempt env url payload (calls s)) [0..<n])
                 @ [Http (Post url payload (Some 10)) (Inr 200)]" by blast
qed

theorem notify_loop_backoff_witness:
  "\<exists>s'. notify_loop env_demo (JStr ''https://example.org/notify'') JNull 1 s_init = Some s'
     \<and> trace s' =
         [Http (Post (JStr ''https://example.org/notify'') JNull (Some 10)) (Inr 503), Sleep 1,
          Http (Post (JStr ''https://example.org/notify'') JNull (Some 10)) (Inr 503), Sleep 2,
          Http (Post (JStr ''https://example.org/notify'') JNull (Some 10)) (Inr 200)]"
proof -
  let ?url = "JStr ''https://example.org/notify''"
  note th = notify_loop_backoff[of env_demo ?url JNull s_init]
  have "http_reply env_demo (calls s_init + 2 * 2) = Inr 200"
    by (simp add: env_demo_def s_init_def)
  then have "\<exists>k. http_reply env_demo (calls s_init + 2 * k) = Inr 200" by blast
  with th obtain s' where s': "notify_loop env_demo ?url JNull 1 s_init = Some s'" by auto
  with th obtain n where n: "http_reply env_demo (calls s_init + 2 * n) = Inr 200"
    "\<forall>k<n. http_reply env_demo (calls s_init + 2 * k) \<noteq> Inr 200"
    "trace s' = trace s_init @ concat (map (attempt env_demo ?url JNull (calls s_init)) [0..<n])
        @ [Http (Post ?url JNull (Some 10)) (Inr 200)]" by blast
  from n(1) have "2 \<le> n" by (simp add: env_demo_def s_init_def split: if_splits)
  moreover have "\<not> 2 < n"
  proof
    assume "2 < n"
    with n(2) have "http_reply env_demo (calls s_init + 2 * 2) \<noteq> Inr 200" by blast
    then show False by (simp add: env_demo_def s_init_def)
  qed
  ultimately have "n = 2" by simp
  have "[0..<2] = [0, Suc 0]" by (simp add: upt_rec)
  with n(3) \<open>n = 2\<close> have "trace s' =
         [Http (Post ?url JNull (Some 10)) (Inr 503), Sleep 1,
          Http (Post ?url JNull (Some 10)) (Inr 503), Sleep 2,
          Http (Post ?url JNull (Some 10)) (Inr 200)]"
    by (simp add: attempt_def env_demo_def s_init_def)
  with s' show ?thesis by blast
qed

section \<open>The endpoint: authentication\<close>

text \<open>
  C1. A request whose secret field differs from the configured secret gets exactly the
  response \<^verbatim>\<open>{"status": "error", "message": "Invalid secret"}\<close>, and the state after the
  handler is the state before it: nothing was added to the trace, so no repository was
  created, updated or deleted, no language-model call was made and no callback was sent.
\<close>

theorem invalid_secret_no_effect:
  "py_ne_secret (secret_field kvs) (STUDENT_SECRET env) \<Longrightarrow>
   build_app env (JObj kvs) s =
     Some (Inr (Some (JObj [(''status'', JStr ''error''), (''message'', JStr ''Invalid secret'')])), s)"
  by (simp add: build_app_def py_get_def secret_field_def response_def split: option.splits)

theorem invalid_secret_no_effect_witness:
  "py_ne_secret (secret_field [(''secret'', JStr ''guess''), (''round'', JInt 1)]) (STUDENT_SECRET env_demo)
   \<and> build_app env_demo (JObj [(''secret'', JStr ''guess''), (''round'', JInt 1)]) s_init =
     Some (Inr (Some (JObj [(''status'', JStr ''error''), (''message'', JStr ''Invalid secret'')])),
           \<lparr>trace = [], calls = 0, now = 0\<rparr>)"
proof -
  have h: "py_ne_secret (secret_field [(''secret'', JStr ''guess''), (''round'', JInt 1)]) (STUDENT_SECRET env_demo)"
    by (simp add: py_ne_secret_def secret_field_def env_demo_def)
  from invalid_secret_no_effect[OF h, of s_init] h show ?thesis by (simp add: s_init_def)
qed

lemma py_get_obj: "py_get (JObj kvs) k = Inr (case map_of kvs k of None \<Rightarrow> JNull | Some v \<Rightarrow> v)"
  by (simp add: py_get_def split: option.splits)

lemma notify_ok:
  "notify env url payload msg s = Some (r, s') \<Longrightarrow> r = Inr (Some (response ''ok'' msg))"
  by (auto simp: notify_def)

lemma response_ne: "response ''ok'' m \<noteq> response ''error'' m'" "response ''error'' m' \<noteq> response ''ok'' m"
  by (simp_all add: response_def)

lemma authenticated_not_rejected:
  "authenticated env data s \<noteq> Some (Inr (Some (response ''error'' ''Invalid secret'')), s')"
proof
  assume "authenticated env data s = Some (Inr (Some (response ''error'' ''Invalid secret'')), s')"
  then show False
    by (auto simp: authenticated_def response_ne split: prod.splits sum.splits if_splits dest!: notify_ok)
qed

text \<open>
  C9. On a JSON object, the handler answers with the "Invalid secret" response if and only
  if \<^verbatim>\<open>data.get("secret")\<close>, which is null where the field is absent, differs from the
  configured secret under Python's \<^verbatim>\<open>!=\<close>. In particular, where the environment variable
  is unset and the request has no secret field, the request is not rejected: the handler
  goes on with everything that follows the check.
\<close>

theorem authentication_decides:
  "((\<exists>s'. build_app env (JObj kvs) s = Some (Inr (Some (response ''error'' ''Invalid secret'')), s'))
      = py_ne_secret (secret_field kvs) (STUDENT_SECRET env))
   \<and> (STUDENT_SECRET env = None \<longrightarrow> map_of kvs ''secret'' = None \<longrightarrow>
        build_app env (JObj kvs) s = authenticated env (JObj kvs) s)"
  by (auto simp: build_app_def py_get_obj secret_field_def authenticated_not_rejected py_ne_secret_def)

theorem authentication_decides_witness:
  "build_app (env_demo\<lparr>STUDENT_SECRET := None\<rparr>) (JObj [(''email'', JStr ''ada@example.org'')]) s_init
     = Some (Inl (KeyError ''task''), s_init)"
proof -
  have "authenticated (env_demo\<lparr>STUDENT_SECRET := None\<rparr>) (JObj [(''email'', JStr ''ada@example.org'')]) s_init
     = Some (Inl (KeyError ''task''), s_init)"
    by (simp add: authenticated_def steps_2_to_4_def eval_defs)
  with authentication_decides[of "env_demo\<lparr>STUDENT_SECRET := None\<rparr>" "[(''email'', JStr ''ada@example.org'')]" s_init]
  show ?thesis by simp
qed

section \<open>The endpoint: dispatch on the round\<close>

lemma emits_save_attachments: "emits local_or_llm (save_attachments env files)"
proof (induction files)
  case Nil
  show ?case by (simp add: emits_return)
next
  case (Cons a rest)
  show ?case
    apply simp
    apply (intro emits_bind emits_basic Cons)
    apply (auto simp: local_or_llm_def intro!: emits_basic split: option.splits)
    done
qed

lemma emits_generate: "emits local_or_llm (generate_minimal_app env brief checks attachments)"
  unfolding generate_minimal_app_def
  by (intro emits_bind emits_basic) (simp add: local_or_llm_def)

lemma emits_steps_2_to_4: "emits local_or_llm (steps_2_to_4 env data)"
  unfolding steps_2_to_4_def
  by (intro emits_bind emits_basic emits_save_attachments emits_generate)

lemma steps_2_to_4_fields:
  assumes "steps_2_to_4 env data s = (Inr (email, task, brief, rnd, nonce, evaluation_url, app_code), s1)"
  shows "py_index data ''round'' = Inr rnd" and "py_index data ''brief'' = Inr brief"
    and "\<exists>es cs names. trace s1 = trace s @ es @ [Llm (Generate brief cs names)]"
proof -
  from assms obtain attachments files sa checks where
    r: "py_index data ''round'' = Inr rnd" and b: "py_index data ''brief'' = Inr brief"
    and sv: "save_attachments env files s = (Inr (), sa)"
    and g: "generate_minimal_app env brief checks attachments sa = (Inr app_code, s1)"
    unfolding steps_2_to_4_def
    by (auto simp: io_bind_Inr io_then_Inr io_lift_Inr io_return_Inr)
  show "py_index data ''round'' = Inr rnd" by fact
  show "py_index data ''brief'' = Inr brief" by fact
  from emitsD[OF emits_save_attachments sv] obtain es where es: "trace sa = trace s @ es" by blast
  from g obtain cs names where "trace s1 = trace sa @ [Llm (Generate brief cs names)]"
    unfolding generate_minimal_app_def
    by (auto simp: io_bind_Inr io_lift_Inr llm_generate_def external_def)
  with es show "\<exists>es cs names. trace s1 = trace s @ es @ [Llm (Generate brief cs names)]" by auto
qed

text \<open>
  C8, as the code has it. The dispatch is \<^verbatim>\<open>if round_ == 1: ... elif round_ == 2: ...\<close>
  on the value of the JSON field, so "neither 1 nor 2" is to be read under Python's
  \<^verbatim>\<open>==\<close>, for which \<^verbatim>\<open>True\<close> and \<^verbatim>\<open>1.0\<close> equal 1 and \<^verbatim>\<open>2.0\<close> equals 2. For an authenticated
  request whose round equals neither 1 nor 2 in that sense, the handler is steps 2 to 4
  and nothing else: it ends with no returned value where those steps succeed, and with
  their exception where they raise, so it never builds a response. Neither branch runs:
  the only events are local file operations and the call of the generator, and there is
  no call to the git host and no HTTP request.
\<close>

theorem other_round_falls_through:
  assumes "\<not> py_ne_secret (secret_field kvs) (STUDENT_SECRET env)"
    and "map_of kvs ''round'' = Some rnd" and "\<not> py_eq_int rnd 1" and "\<not> py_eq_int rnd 2"
  shows "build_app env (JObj kvs) s =
           Some (case steps_2_to_4 env (JObj kvs) s of
                   (Inl e, s1) \<Rightarrow> (Inl e, s1) | (Inr v, s1) \<Rightarrow> (Inr None, s1))
         \<and> (\<exists>es. trace (snd (steps_2_to_4 env (JObj kvs) s)) = trace s @ es \<and> list_all local_or_llm es)"
proof
  have "\<And>email task brief r nonce url app s1.
      steps_2_to_4 env (JObj kvs) s = (Inr (email, task, brief, r, nonce, url, app), s1) \<Longrightarrow> r = rnd"
    using assms(2) by (auto dest!: steps_2_to_4_fields(1) simp: py_index_def)
  with assms show "build_app env (JObj kvs) s =
           Some (case steps_2_to_4 env (JObj kvs) s of
                   (Inl e, s1) \<Rightarrow> (Inl e, s1) | (Inr v, s1) \<Rightarrow> (Inr None, s1))"
    by (auto simp: build_app_def py_get_obj secret_field_def authenticated_def split: prod.splits sum.splits)
  from emits_steps_2_to_4
  show "\<exists>es. trace (snd (steps_2_to_4 env (JObj kvs) s)) = trace s @ es \<and> list_all local_or_llm es"
    by (simp add: emits_def)
qed

theorem other_round_falls_through_witness:
  "outcome (build_app env_demo (JObj req_round3) s_init) = Some (Inr None)
   \<and> final_trace (build_app env_demo (JObj req_round3) s_init) = [Llm (Generate (JStr ''Add a dark theme'') [] [])]"
proof -
  have a: "\<not> py_ne_secret (secret_field req_round3) (STUDENT_SECRET env_demo)"
    by (simp add: py_ne_secret_def secret_field_def req_round3_def env_demo_def)
  have b: "map_of req_round3 ''round'' = Some (JInt 3)" by (simp add: req_round3_def)
  have c: "\<not> py_eq_int (JInt 3) 1" "\<not> py_eq_int (JInt 3) 2" by (simp_all add: py_eq_int_def)
  have d: "steps_2_to_4 env_demo (JObj req_round3) s_init =
     (Inr (JStr ''ada@example.org'', JStr ''demo'', JStr ''Add a dark theme'', JInt 3, JStr ''n-1'',
           JStr ''https://example.org/notify'', JObj [(''index.html'', JStr ''<html></html>'')]),
      \<lparr>trace = [Llm (Generate (JStr ''Add a dark theme'') [] [])], calls = 1, now = 250\<rparr>)"
    by (simp add: steps_2_to_4_def req_round3_def env_demo_def s_init_def eval_defs)
  from other_round_falls_through[OF a b c, of s_init] show ?thesis
    by (simp add: d outcome_def final_trace_def)
qed

lemma py_eq_int_2_not_1: "py_eq_int v 2 \<Longrightarrow> \<not> py_eq_int v 1"
  by (cases v) (auto simp: py_eq_int_def split: if_splits)

text \<open>
  C4, as the code has it. For an authenticated request of round 2, the handler is steps 2
  to 4, which end with the call of the app generator on the brief, then the repository
  updater, then the callback loop. The generator runs before the dispatch on the round,
  for both rounds; in round 2 its result is not used. The publisher does not run.
\<close>

theorem round2_pipeline:
  assumes "\<not> py_ne_secret (secret_field kvs) (STUDENT_SECRET env)"
    and "map_of kvs ''round'' = Some rnd" and "py_eq_int rnd 2"
  shows "build_app env (JObj kvs) s =
           (case steps_2_to_4 env (JObj kvs) s of
              (Inl e, s1) \<Rightarrow> Some (Inl e, s1)
            | (Inr (email, task, brief, r, nonce, evaluation_url, app_code), s1) \<Rightarrow>
                (case update_existing_repo env task brief s1 of
                   (Inl e, s2) \<Rightarrow> Some (Inl e, s2)
                 | (Inr result, s2) \<Rightarrow>
                     notify env evaluation_url (callback_payload email task rnd nonce result)
                       ''Round 2 update complete'' s2))
         \<and> (\<forall>v s1. steps_2_to_4 env (JObj kvs) s = (Inr v, s1) \<longrightarrow>
               (\<exists>es brief cs names. map_of kvs ''brief'' = Some brief
                   \<and> trace s1 = trace s @ es @ [Llm (Generate brief cs names)]))"
proof (intro conjI allI impI)
  have "\<And>email task brief r nonce url app s1.
      steps_2_to_4 env (JObj kvs) s = (Inr (email, task, brief, r, nonce, url, app), s1) \<Longrightarrow> r = rnd"
    using assms(2) by (auto dest!: steps_2_to_4_fields(1) simp: py_index_def)
  with assms py_eq_int_2_not_1[OF assms(3)]
  show "build_app env (JObj kvs) s =
           (case steps_2_to_4 env (JObj kvs) s of
              (Inl e, s1) \<Rightarrow> Some (Inl e, s1)
            | (Inr (email, task, brief, r, nonce, evaluation_url, app_code), s1) \<Rightarrow>
                (case update_existing_repo env task brief s1 of
                   (Inl e, s2) \<Rightarrow> Some (Inl e, s2)
                 | (Inr result, s2) \<Rightarrow>
                     notify env evaluation_url (callback_payload email task rnd nonce result)
                       ''Round 2 update complete'' s2))"
    by (auto simp: build_app_def py_get_obj secret_field_def authenticated_def split: prod.splits sum.splits)
next
  fix v s1 assume a: "steps_2_to_4 env (JObj kvs) s = (Inr v, s1)"
  obtain email task brief r nonce url app where f: "v = (email, task, brief, r, nonce, url, app)"
    by (cases v)
  from steps_2_to_4_fields(2,3)[OF a[unfolded f]]
  show "\<exists>es brief cs names. map_of kvs ''brief'' = Some brief
                   \<and> trace s1 = trace s @ es @ [Llm (Generate brief cs names)]"
    by (auto simp: py_index_def split: option.splits)
qed

theorem round2_pipeline_witness:
  "outcome (build_app env_demo (JObj req_round2) s_init)
     = Some (Inr (Some (response ''ok'' ''Round 2 update complete'')))"
proof -
  have a: "\<not> py_ne_secret (secret_field req_round2) (STUDENT_SECRET env_demo)"
    by (simp add: py_ne_secret_def secret_field_def req_round2_def env_demo_def)
  have b: "map_of req_round2 ''round'' = Some (JInt 2)" by (simp add: req_round2_def)
  have c: "py_eq_int (JInt 2) 2" by (simp add: py_eq_int_def)
  from round2_pipeline[OF a b c, of s_init, THEN conjunct1] show ?thesis
    by (simp add: outcome_def steps_2_to_4_def
        req_round2_def env_demo_def s_init_def eval_defs round2_defs nl_def sq_def)
qed

text \<open>
  C4 as the specification states it fails: in this run of an authenticated request of
  round 2 the first event is the call of the app generator, and the updater and the
  callback follow.
\<close>

theorem round2_generator_counterexample:
  "outcome (build_app env_demo (JObj req_round2) s_init)
     = Some (Inr (Some (JObj [(''status'', JStr ''ok''), (''message'', JStr ''Round 2 update complete'')])))
   \<and> final_trace (build_app env_demo (JObj req_round2) s_init) =
 [Llm (Generate (JStr ''Add a dark theme'') [] []),
  GitHub (GetRepo ''demo'') None,
  GitHub (GetContents ''demo'' ''index.html'') (Some UnknownObjectException),
  GitHub (GetContents ''demo'' ''index.html'') (Some UnknownObjectException),
  GitHub (CreateFile ''demo'' ''index.html'' ''Initial HTML'' ''<h1>Hello World</h1>'') None,
  Print ''Created new HTML since none existed.'',
  GitHub (GetContents ''demo'' ''style.css'') (Some UnknownObjectException),
  GitHub (GetContents ''demo'' ''style.css'') (Some UnknownObjectException),
  GitHub (CreateFile ''demo'' ''style.css'' ''Add CSS'' ''body { font-family: sans-serif; }'') None,
  Print ''Created default CSS since none existed.'',
  GitHub (GetContents ''demo'' ''script.js'') (Some UnknownObjectException),
  GitHub (GetContents ''demo'' ''script.js'') (Some UnknownObjectException),
  GitHub (CreateFile ''demo'' ''script.js'' ''Add JS'' (''console.log('' @ sq @ ''Initial script'' @ sq @ '');'')) None,
  Print ''Created default JS since none existed.'',
  GitHub (GetContents ''demo'' ''README.md'') (Some UnknownObjectException),
  GitHub (CreateFile ''demo'' ''README.md'' ''Add README'' (''# demo'' @ nl @ nl @ ''Add a dark theme'')) None,
  Print ''Waiting for GitHub Pages to go live at https://ada.github.io/demo/'',
  Http (Get ''https://ada.github.io/demo/'' 5) (Inr 200),
  Print ''GitHub Pages is live: https://ada.github.io/demo/'',
  GitHub (GetCommits ''demo'') None,
  Http (Post (JStr ''https://example.org/notify'')
     (JObj [(''email'', JStr ''ada@example.org''), (''task'', JStr ''demo''),
        (''round'', JInt 2), (''nonce'', JStr ''n-1''),
        (''repo_url'', JStr ''https://github.com/ada/demo''),
        (''commit_sha'', JStr ''c0ffee''),
        (''pages_url'', JStr ''https://ada.github.io/demo/'')])
     (Some 10)) (Inr 200)]"
  by (simp add: outcome_def final_trace_def build_app_def authenticated_def steps_2_to_4_def
        req_round2_def env_demo_def s_init_def eval_defs round2_defs response_def nl_def sq_def)

text \<open>
  The same for round 1: steps 2 to 4, ending with the call of the app generator, then
  the repository publisher, called without the attachments, then the callback loop.
\<close>

lemma round1_pipeline:
  assumes "\<not> py_ne_secret (secret_field kvs) (STUDENT_SECRET env)"
    and "map_of kvs ''round'' = Some rnd" and "py_eq_int rnd 1"
  shows "build_app env (JObj kvs) s =
           (case steps_2_to_4 env (JObj kvs) s of
              (Inl e, s1) \<Rightarrow> Some (Inl e, s1)
            | (Inr (email, task, brief, r, nonce, evaluation_url, app_code), s1) \<Rightarrow>
                (case create_and_deploy_repo env task app_code brief None s1 of
                   (Inl e, s2) \<Rightarrow> Some (Inl e, s2)
                 | (Inr result, s2) \<Rightarrow>
                     notify env evaluation_url (callback_payload email task rnd nonce result)
                       ''Round 1 build complete'' s2))
         \<and> (\<forall>v s1. steps_2_to_4 env (JObj kvs) s = (Inr v, s1) \<longrightarrow>
               (\<exists>es brief cs names. map_of kvs ''brief'' = Some brief
                   \<and> trace s1 = trace s @ es @ [Llm (Generate brief cs names)]))"
proof (intro conjI allI impI)
  have "\<And>email task brief r nonce url app s1.
      steps_2_to_4 env (JObj kvs) s = (Inr (email, task, brief, r, nonce, url, app), s1) \<Longrightarrow> r = rnd"
    using assms(2) by (auto dest!: steps_2_to_4_fields(1) simp: py_index_def)
  with assms
  show "build_app env (JObj kvs) s =
           (case steps_2_to_4 env (JObj kvs) s of
              (Inl e, s1) \<Rightarrow> Some (Inl e, s1)
            | (Inr (email, task, brief, r, nonce, evaluation_url, app_code), s1) \<Rightarrow>
                (case create_and_deploy_repo env task app_code brief None s1 of
                   (Inl e, s2) \<Rightarrow> Some (Inl e, s2)
                 | (Inr result, s2) \<Rightarrow>
                     notify env evaluation_url (callback_payload email task rnd nonce result)
                       ''Round 1 build complete'' s2))"
    by (auto simp: build_app_def py_get_obj secret_field_def authenticated_def split: prod.splits sum.splits)
next
  fix v s1 assume a: "steps_2_to_4 env (JObj kvs) s = (Inr v, s1)"
  obtain email task brief r nonce url app where f: "v = (email, task, brief, r, nonce, url, app)"
    by (cases v)
  from steps_2_to_4_fields(2,3)[OF a[unfolded f]]
  show "\<exists>es brief cs names. map_of kvs ''brief'' = Some brief
                   \<and> trace s1 = trace s @ es @ [Llm (Generate brief cs names)]"
    by (auto simp: py_index_def split: option.splits)
qed

section \<open>The repository updater\<close>

text \<open>
  C10. In the index.html step, the check for \<^verbatim>\<open><html\<close> that follows the commit changes
  nothing but the printed output. Whatever the check finds, the step ends as the commit
  ended, in the state the commit left, with at most the warning line added to the trace:
  the calls made to the git host are the same, so what was committed stays committed and
  nothing is restored.
\<close>

theorem html_check_only_prints:
  "\<exists>s1. html_commit env repo task new_brief updated_html old_html s
           = (fst (io_then (html_commit env repo task new_brief updated_html old_html)
                     (html_check updated_html) s), s1)
      \<and> (snd (io_then (html_commit env repo task new_brief updated_html old_html)
                 (html_check updated_html) s) = s1
         \<or> snd (io_then (html_commit env repo task new_brief updated_html old_html)
                   (html_check updated_html) s)
             = emit (Print ''Invalid HTML, restoring previous file.'') s1)
      \<and> github_events (trace (snd (io_then (html_commit env repo task new_brief updated_html old_html)
                                      (html_check updated_html) s)))
          = github_events (trace s1)"
proof -
  obtain r s1 where c: "html_commit env repo task new_brief updated_html old_html s = (r, s1)"
    by (cases "html_commit env repo task new_brief updated_html old_html s")
  show ?thesis
    by (intro exI[of _ s1], cases r)
       (simp_all add: c io_then_def io_bind_def html_check_def print_def io_return_def emit_def
          github_events_def)
qed

theorem html_check_only_prints_witness:
  "fst (io_then (html_commit env_site repo_demo ''demo'' (JStr ''Make it blue'') page_short page_padded)
          (html_check page_short) s_init) = Inr ()
   \<and> github_events (trace (snd (io_then
          (html_commit env_site repo_demo ''demo'' (JStr ''Make it blue'') page_short page_padded)
          (html_check page_short) s_init)))
     = github_events (trace (snd (html_commit env_site repo_demo ''demo'' (JStr ''Make it blue'')
          page_short page_padded s_init)))
   \<and> last (trace (snd (io_then
          (html_commit env_site repo_demo ''demo'' (JStr ''Make it blue'') page_short page_padded)
          (html_check page_short) s_init)))
     = Print ''Invalid HTML, restoring previous file.''"
proof -
  let ?commit = "html_commit env_site repo_demo ''demo'' (JStr ''Make it blue'') page_short page_padded"
  have c: "fst (?commit s_init) = Inr ()"
    by (simp add: html_commit_def insufficient_def merge_html_update_def page_short_def page_padded_def
          env_site_def env_demo_def s_init_def repo_demo_def eval_defs string_defs)
  have n: "\<not> contains (lower page_short) ''<html''"
    by (simp add: page_short_def string_defs)
  from html_check_only_prints[of env_site repo_demo "''demo''" "JStr ''Make it blue''" page_short
      page_padded s_init]
  obtain s1 where s1: "?commit s_init = (fst (io_then ?commit (html_check page_short) s_init), s1)"
    and g: "github_events (trace (snd (io_then ?commit (html_check page_short) s_init)))
          = github_events (trace s1)"
    by blast
  from s1 have s1': "s1 = snd (?commit s_init)" by (metis snd_conv)
  from s1 c have f: "fst (io_then ?commit (html_check page_short) s_init) = Inr ()"
    by (metis fst_conv)
  have "?commit s_init = (Inr (), s1)" using s1 f by simp
  then have "snd (io_then ?commit (html_check page_short) s_init)
      = emit (Print ''Invalid HTML, restoring previous file.'') s1"
    using n by (simp add: io_then_def io_bind_def html_check_def print_def)
  then have "last (trace (snd (io_then ?commit (html_check page_short) s_init)))
      = Print ''Invalid HTML, restoring previous file.''"
    by (simp add: emit_def)
  with f g s1' show ?thesis by simp
qed

lemma commits_simps [simp]:
  "commits [] = []"
  "commits (ev # es) = (case commit_of ev of None \<Rightarrow> commits es | Some c \<Rightarrow> c # commits es)"
  by (simp_all add: commits_def List.map_filter_simps split: option.splits)

lemma commits_append [simp]: "commits (xs @ ys) = commits xs @ commits ys"
  by (simp add: commits_def List.map_filter_def)

text \<open>
  C2, as the code has it. Take a step for index.html, style.css or script.js in which the
  file exists (the first fetch returns its text \<open>old\<close>), the language model answers with
  \<open>raw\<close>, and the git host serves the second fetch and accepts the write. Then the step
  ends normally with exactly one commit. It is the scripted patch, under the message
  "Guaranteed ... update", if and only if the cleaned answer, trimmed, is shorter than
  half of the length of \<open>old\<close> as fetched (not trimmed), or the cleaned answer equals \<open>old\<close>;
  otherwise it is the cleaned answer, under the message "Round 2: Updated ...".
\<close>

theorem asset_update_choice:
  assumes "contents_reply env (calls s) = Inr cf" and "cf_text cf = Some old"
    and "llm_text_reply env (calls s + 1) = Inr raw"
    and "contents_reply env (calls s + 2) = Inr cf2" and "cf_text cf2 = Some old2"
    and "write_reply env (calls s + 3) = None"
  shows "fst (html_step env repo task (JStr nb) s) = Inr ()
     \<and> commits (new_events s (snd (html_step env repo task (JStr nb) s))) =
          [if insufficient (cleaned ''html'' raw) old
           then (''index.html'', ''Guaranteed HTML update for '' @ task, html_patch old2 nb)
           else (cf_path cf2, ''Round 2: Updated HTML'', cleaned ''html'' raw)]
     \<and> fst (css_step env repo task (JStr nb) s) = Inr ()
     \<and> commits (new_events s (snd (css_step env repo task (JStr nb) s))) =
          [if insufficient (cleaned ''css'' raw) old
           then (''style.css'', ''Guaranteed CSS update for '' @ task, css_patch old2 nb)
           else (cf_path cf2, ''Round 2: Updated CSS'', cleaned ''css'' raw)]
     \<and> fst (js_step env repo task (JStr nb) s) = Inr ()
     \<and> commits (new_events s (snd (js_step env repo task (JStr nb) s))) =
          [if insufficient (cleaned_js raw) old
           then (''script.js'', ''Guaranteed JS update for '' @ task, js_patch old2 nb)
           else (cf_path cf2, ''Round 2: Updated JS'', cleaned_js raw)]"
proof -
  have a3: "llm_text_reply env (Suc (calls s)) = Inr raw" using assms(3) by simp
  have a4: "contents_reply env (Suc (Suc (calls s))) = Inr cf2" using assms(4) by simp
  have a6: "write_reply env (Suc (Suc (Suc (calls s)))) = None"
    using assms(6) by (simp add: numeral_3_eq_3)
  note facts = assms(1,2,5) a3 a4 a6
  have h: "fst (html_step env repo task (JStr nb) s) = Inr ()
     \<and> commits (new_events s (snd (html_step env repo task (JStr nb) s))) =
          [if insufficient (cleaned ''html'' raw) old
           then (''index.html'', ''Guaranteed HTML update for '' @ task, html_patch old2 nb)
           else (cf_path cf2, ''Round 2: Updated HTML'', cleaned ''html'' raw)]"
    using facts
    by (simp add: html_step_def html_commit_def html_check_def merge_html_update_def
          update_file_safely_def llm_update_file_def eval_defs cleaned_def new_events_def)
  have c: "fst (css_step env repo task (JStr nb) s) = Inr ()
     \<and> commits (new_events s (snd (css_step env repo task (JStr nb) s))) =
          [if insufficient (cleaned ''css'' raw) old
           then (''style.css'', ''Guaranteed CSS update for '' @ task, css_patch old2 nb)
           else (cf_path cf2, ''Round 2: Updated CSS'', cleaned ''css'' raw)]"
    using facts
    by (simp add: css_step_def merge_css_update_def
          update_file_safely_def llm_update_file_def eval_defs cleaned_def new_events_def)
  have j: "fst (js_step env repo task (JStr nb) s) = Inr ()
     \<and> commits (new_events s (snd (js_step env repo task (JStr nb) s))) =
          [if insufficient (cleaned_js raw) old
           then (''script.js'', ''Guaranteed JS update for '' @ task, js_patch old2 nb)
           else (cf_path cf2, ''Round 2: Updated JS'', cleaned_js raw)]"
    using facts
    by (simp add: js_step_def merge_js_update_def
          update_file_safely_def llm_update_file_def eval_defs cleaned_js_def new_events_def)
  from h c j show ?thesis by simp
qed

lemma cleaned_page_short: "cleaned ''html'' page_short = ''<p>Hi!!</p>''"
  by (simp add: cleaned_def page_short_def string_defs)

theorem asset_update_choice_witness:
  "insufficient (cleaned ''html'' page_short) page_padded
   \<and> fst (html_step env_site repo_demo ''demo'' (JStr ''Make it blue'') s_init) = Inr ()
   \<and> commits (new_events s_init (snd (html_step env_site repo_demo ''demo'' (JStr ''Make it blue'') s_init)))
       = [(''index.html'', ''Guaranteed HTML update for demo'', html_patch page_padded ''Make it blue'')]"
proof -
  let ?cf = "\<lparr>cf_path = ''index.html'', cf_sha = ''abc'', cf_text = Some page_padded\<rparr>"
  have i: "insufficient (cleaned ''html'' page_short) page_padded"
    unfolding cleaned_page_short by (simp add: insufficient_def page_padded_def string_defs)
  have "contents_reply env_site (calls s_init) = Inr ?cf" "cf_text ?cf = Some page_padded"
    "llm_text_reply env_site (calls s_init + 1) = Inr page_short"
    "contents_reply env_site (calls s_init + 2) = Inr ?cf" "cf_text ?cf = Some page_padded"
    "write_reply env_site (calls s_init + 3) = None"
    by (simp_all add: env_site_def env_demo_def)
  from asset_update_choice[OF this, of repo_demo "''demo''" "''Make it blue''"] i
  show ?thesis by simp
qed

text \<open>
  C2 as the specification states it compares with the trimmed length of the original.
  Here the original has 24 characters, 12 of them trailing spaces, and the answer has 11:
  the answer is not under half of the original's trimmed length and differs from it, yet
  the scripted patch is what is committed.
\<close>

theorem fallback_condition_counterexample:
  "\<not> spec_rejects (cleaned ''html'' page_short) page_padded
   \<and> commits (trace (snd (html_step env_site repo_demo ''demo'' (JStr ''Make it blue'') s_init)))
       = [(''index.html'', ''Guaranteed HTML update for demo'',
           ''<p>Hello</p>            '' @ nl @ ''<!-- Update: Make it blue -->'')]"
proof -
  have "\<not> spec_rejects (cleaned ''html'' page_short) page_padded"
    unfolding cleaned_page_short by (simp add: spec_rejects_def page_padded_def string_defs)
  moreover have "insufficient (cleaned ''html'' page_short) page_padded"
    unfolding cleaned_page_short by (simp add: insufficient_def page_padded_def string_defs)
  then have "commits (trace (snd (html_step env_site repo_demo ''demo'' (JStr ''Make it blue'') s_init)))
       = [(''index.html'', ''Guaranteed HTML update for demo'', html_patch page_padded ''Make it blue'')]"
    by (simp add: html_step_def html_commit_def html_check_def merge_html_update_def
          update_file_safely_def llm_update_file_def eval_defs cleaned_def env_site_def env_demo_def
          s_init_def repo_demo_def)
  moreover have "html_patch page_padded ''Make it blue''
      = ''<p>Hello</p>            '' @ nl @ ''<!-- Update: Make it blue -->''"
    by (simp add: html_patch_def page_padded_def string_defs)
  ultimately show ?thesis by simp
qed

section \<open>The repository publisher\<close>

lemma pe_simps [simp]:
  "publisher_event env keys (Print m)"
  "publisher_event env keys (Sleep d)"
  "publisher_event env keys (Http h r)"
  "publisher_event env keys (GitHub (GetRepo n) x)"
  "publisher_event env keys (GitHub (DeleteRepo n) x)"
  "publisher_event env keys (GitHub (CreateRepo n p de l) x)"
  "publisher_event env keys (GitHub (GetContents n pa) x)"
  "publisher_event env keys (GitHub (EditRepo n) x)"
  "publisher_event env keys (GitHub (GetCommits n) x)"
  by (simp_all add: publisher_event_def)

lemma emits_wait_deleted: "emits (publisher_event env' keys) (wait_deleted env name n)"
  by (induction n) (auto intro!: emits_basic emits_bind simp: get_repo_def)

lemma emits_delete_repo_if_exists: "emits (publisher_event env' keys) (delete_repo_if_exists env name)"
  unfolding delete_repo_if_exists_def
  by (auto intro!: emits_basic emits_bind emits_wait_deleted simp: get_repo_def)

lemma emits_create_fresh_repo: "emits (publisher_event env' keys) (create_fresh_repo env task brief)"
  unfolding create_fresh_repo_def Let_def
  by (auto intro!: emits_basic emits_bind emits_delete_repo_if_exists simp: get_repo_def create_repo_def)

lemma emits_wait_for_pages_ready: "emits (publisher_event env' keys) (wait_for_pages_ready env url mw)"
proof (rule emitsI)
  fix s
  obtain r s' where w: "wait_for_pages_ready env url mw s = (r, s')"
    by (cases "wait_for_pages_ready env url mw s")
  have "list_all (publisher_event env' keys) (retries url rs)" for rs
    by (induction rs) (simp_all add: retries_def)
  with wait_for_pages_ready_shape[OF w]
  show "\<exists>es. trace (snd (wait_for_pages_ready env url mw s)) = trace s @ es
      \<and> list_all (publisher_event env' keys) es"
    unfolding w by (cases r) (auto split: if_splits)
qed

lemma emits_enable_pages: "emits (publisher_event env' keys) (enable_pages env repo)"
  unfolding enable_pages_def
  by (auto intro!: emits_basic emits_bind)

lemma emits_finish_deploy: "emits (publisher_event env' keys) (finish_deploy env repo)"
  unfolding finish_deploy_def
  by (auto intro!: emits_basic emits_bind emits_enable_pages emits_wait_for_pages_ready
      simp: get_commits_def split: option.splits)

lemma emits_license_step: "emits (publisher_event env keys) (license_step env repo)"
  unfolding license_step_def Let_def
  by (auto intro!: emits_basic emits_bind
      simp: get_listing_def get_contents_def update_file_def create_file_def publisher_event_def)

lemma emits_fix_rule: "emits (publisher_event env keys) (fix_rule bad good fixed msg content)"
  unfolding fix_rule_def
  by (auto intro!: emits_basic emits_bind split: option.splits)

lemma emits_fix_common_ci_errors: "emits (publisher_event env keys) (fix_common_ci_errors kvs)"
  by (induction kvs) (auto intro!: emits_basic emits_bind emits_fix_rule)

lemma fix_common_ci_errors_keys:
  "fix_common_ci_errors kvs s = (Inr fixed, s') \<Longrightarrow> map fst fixed = map fst kvs"
proof (induction kvs arbitrary: s fixed s')
  case Nil
  then show ?case by (simp add: io_return_def)
next
  case (Cons kv kvs)
  obtain k v where kv: "kv = (k, v)" by (cases kv)
  from Cons.prems obtain c s1 rest where
    "fix_common_ci_errors kvs s1 = (Inr rest, s')" "fixed = (k, c) # rest"
    unfolding kv by (auto simp: io_bind_Inr io_return_Inr)
  with Cons.IH show ?case by (auto simp: kv)
qed

lemma emits_upload_files:
  "\<forall>k \<in> set (map fst kvs). k \<in> keys \<and> k \<noteq> ''LICENSE'' \<Longrightarrow>
   emits (publisher_event env' keys) (upload_files env repo kvs seen)"
proof (induction kvs arbitrary: seen)
  case Nil
  show ?case by (simp add: emits_return)
next
  case (Cons kv kvs)
  obtain k v where kv: "kv = (k, v)" by (cases kv)
  from Cons.prems have k: "k \<in> keys" "k \<noteq> ''LICENSE''"
    and rest: "\<forall>k \<in> set (map fst kvs). k \<in> keys \<and> k \<noteq> ''LICENSE''" by (auto simp: kv)
  show ?case
    unfolding kv using k Cons.IH[OF rest]
    by (auto intro!: emits_basic emits_bind simp: Let_def create_file_def publisher_event_def)
qed

lemma strip_license_keys:
  "strip_license app_code s = (Inr kvs, s') \<Longrightarrow>
   \<forall>k \<in> set (map fst kvs). k \<in> dict_keys app_code \<and> k \<noteq> ''LICENSE''"
  by (cases app_code)
     (force simp: strip_license_def dict_keys_def dict_pop_def io_then_Inr io_return_Inr io_raise_def
        split: if_splits)+

lemma emits_strip_license: "emits (publisher_event env keys) (strip_license app_code)"
  by (cases app_code) (auto simp: strip_license_def intro!: emits_basic)

lemma emits_upload_generated:
  "emits (publisher_event env' (dict_keys app_code)) (upload_generated env repo app_code)"
  unfolding upload_generated_def
proof (intro emits_bind emits_strip_license emits_fix_common_ci_errors)
  fix kvs s s' fixed s1 s1'
  assume "strip_license app_code s = (Inr kvs, s')" "fix_common_ci_errors kvs s1 = (Inr fixed, s1')"
  then have "\<forall>k \<in> set (map fst fixed). k \<in> dict_keys app_code \<and> k \<noteq> ''LICENSE''"
    using strip_license_keys fix_common_ci_errors_keys by metis
  then show "emits (publisher_event env' (dict_keys app_code)) (upload_files env repo fixed {})"
    by (rule emits_upload_files)
qed

lemma emits_create_and_deploy_repo:
  "emits (publisher_event env (dict_keys app_code)) (create_and_deploy_repo env task app_code brief None)"
  unfolding create_and_deploy_repo_def attachments_step_def
  by (auto intro!: emits_basic emits_bind emits_create_fresh_repo emits_upload_generated
      emits_license_step emits_finish_deploy)

lemma license_step_commits:
  assumes "license_step env repo s = (Inr (), s')"
  shows "\<exists>es. trace s' = trace s @ es
     \<and> ((''LICENSE'', ''Add MIT License'', get_mit_license (user_name env)) \<in> set (commits es)
        \<or> (\<exists>cf. contents_reply env (Suc (calls s)) = Inr cf
              \<and> (cf_path cf, ''Update MIT License'', get_mit_license (user_name env)) \<in> set (commits es)))"
  using assms unfolding license_step_def Let_def
  by (auto simp: io_bind_def io_then_def io_catch_def io_return_def io_raise_def
        gh_write_def create_file_def update_file_def get_contents_def get_listing_def gh_call_def
        print_def emit_def external_def Let_def err_of_def
        split: if_splits sum.splits option.splits)

lemma mit_text:
  "get_mit_license name =
     ''MIT License'' @ [CHR 0x0A] @ ''Copyright (c) 2025 ''
     @ (case name of None \<Rightarrow> ''None'' | Some n \<Rightarrow> n) @ [CHR 0x0A]
     @ ''Permission is hereby granted, free of charge, to any person obtaining a copy...''
     @ [CHR 0x0A]"
  by (simp add: get_mit_license_def nl_def)

text \<open>
  C5. In every Round 1 build (the publisher as the handler calls it, on any file set the
  model returned): no generated file is uploaded under the key LICENSE (such an upload
  would be the creation of LICENSE with the message "Add LICENSE"); every creation or
  update of the file LICENSE that the publisher asks for carries the fixed MIT text, which
  is the three lines \<^verbatim>\<open>MIT License\<close>, \<^verbatim>\<open>Copyright (c) 2025\<close> with the name of the account
  (\<^verbatim>\<open>None\<close> for an account with no name), and
  \<^verbatim>\<open>Permission is hereby granted, free of charge, to any person obtaining a copy...\<close>,
  each ended by a newline; and whenever the publisher returns, a commit of that text,
  made by the license section, was accepted. That commit is the creation of LICENSE, or
  the update of the file that the git host returned for LICENSE, at the path of that
  file: the fetch is the second call of the license section, which starts when the
  repository is created and the generated files are uploaded. On a git host that answers
  a fetch with a file of the path asked for, the commit is therefore to LICENSE.
\<close>

theorem license_is_always_mit:
  fixes env :: env
  defines "mit \<equiv> ''MIT License'' @ [CHR 0x0A] @ ''Copyright (c) 2025 ''
     @ (case user_name env of None \<Rightarrow> ''None'' | Some n \<Rightarrow> n) @ [CHR 0x0A]
     @ ''Permission is hereby granted, free of charge, to any person obtaining a copy...''
     @ [CHR 0x0A]"
  assumes run: "create_and_deploy_repo env task app_code brief None s = (r, s')"
  shows "(\<forall>repo content reply.
            GitHub (CreateFile repo ''LICENSE'' ''Add LICENSE'' content) reply \<notin> set (new_events s s'))
     \<and> (\<forall>repo message content sha reply.
            GitHub (CreateFile repo ''LICENSE'' message content) reply \<in> set (new_events s s')
            \<or> GitHub (UpdateFile repo ''LICENSE'' message content sha) reply \<in> set (new_events s s')
            \<longrightarrow> content = mit)
     \<and> ((\<exists>v. r = Inr v) \<longrightarrow>
            (\<exists>repo s1 s2. create_fresh_repo env task brief s = (Inr repo, s1)
               \<and> upload_generated env repo app_code s1 = (Inr (), s2)
               \<and> ((''LICENSE'', ''Add MIT License'', mit) \<in> set (commits (new_events s s'))
                  \<or> (\<exists>cf. contents_reply env (Suc (calls s2)) = Inr cf
                        \<and> (cf_path cf, ''Update MIT License'', mit)
                              \<in> set (commits (new_events s s'))))))
     \<and> ((\<exists>v. r = Inr v) \<and> (\<forall>k cf. contents_reply env k = Inr cf \<longrightarrow> cf_path cf = ''LICENSE'') \<longrightarrow>
            (''LICENSE'', ''Add MIT License'', mit) \<in> set (commits (new_events s s'))
            \<or> (''LICENSE'', ''Update MIT License'', mit) \<in> set (commits (new_events s s')))"
proof -
  have mit: "mit = get_mit_license (user_name env)"
    unfolding mit_def mit_text ..
  from emitsD[OF emits_create_and_deploy_repo run] obtain es where
    es: "trace s' = trace s @ es" "list_all (publisher_event env (dict_keys app_code)) es" by blast
  then have ne: "new_events s s' = es" by (simp add: new_events_def)
  have c1: "\<forall>repo content reply.
      GitHub (CreateFile repo ''LICENSE'' ''Add LICENSE'' content) reply \<notin> set (new_events s s')"
    using es(2) unfolding ne list_all_iff by (auto simp: publisher_event_def)
  have c2: "\<forall>repo message content sha reply.
      GitHub (CreateFile repo ''LICENSE'' message content) reply \<in> set (new_events s s')
      \<or> GitHub (UpdateFile repo ''LICENSE'' message content sha) reply \<in> set (new_events s s')
      \<longrightarrow> content = mit"
    using es(2) unfolding ne list_all_iff mit by (auto simp: publisher_event_def)
  have c3: "\<exists>repo s1 s2. create_fresh_repo env task brief s = (Inr repo, s1)
               \<and> upload_generated env repo app_code s1 = (Inr (), s2)
               \<and> ((''LICENSE'', ''Add MIT License'', mit) \<in> set (commits (new_events s s'))
                  \<or> (\<exists>cf. contents_reply env (Suc (calls s2)) = Inr cf
                        \<and> (cf_path cf, ''Update MIT License'', mit)
                              \<in> set (commits (new_events s s'))))"
    if "\<exists>v. r = Inr v"
  proof -
    from that obtain v where v: "r = Inr v" by blast
    from run[unfolded v] obtain repo s1 s2 s3 where
      a: "create_fresh_repo env task brief s = (Inr repo, s1)"
      and b: "upload_generated env repo app_code s1 = (Inr (), s2)"
      and c: "license_step env repo s2 = (Inr (), s3)"
      and d: "finish_deploy env repo s3 = (Inr v, s')"
      unfolding create_and_deploy_repo_def attachments_step_def
      by (auto simp: io_bind_Inr io_then_Inr io_return_Inr)
    from emitsD[OF emits_create_fresh_repo a] obtain e1 where e1: "trace s1 = trace s @ e1" by blast
    from emitsD[OF emits_upload_generated b] obtain e2 where e2: "trace s2 = trace s1 @ e2" by blast
    from license_step_commits[OF c] obtain e3 where e3: "trace s3 = trace s2 @ e3"
      and l: "(''LICENSE'', ''Add MIT License'', mit) \<in> set (commits e3)
          \<or> (\<exists>cf. contents_reply env (Suc (calls s2)) = Inr cf
                \<and> (cf_path cf, ''Update MIT License'', mit) \<in> set (commits e3))"
      unfolding mit by blast
    from emitsD[OF emits_finish_deploy d] obtain e4 where e4: "trace s' = trace s3 @ e4" by blast
    have "new_events s s' = e1 @ e2 @ e3 @ e4"
      by (simp add: new_events_def e1 e2 e3 e4)
    with l have "(''LICENSE'', ''Add MIT License'', mit) \<in> set (commits (new_events s s'))
                  \<or> (\<exists>cf. contents_reply env (Suc (calls s2)) = Inr cf
                        \<and> (cf_path cf, ''Update MIT License'', mit)
                              \<in> set (commits (new_events s s')))"
      by auto
    with a b show ?thesis by blast
  qed
  have c4: "(''LICENSE'', ''Add MIT License'', mit) \<in> set (commits (new_events s s'))
            \<or> (''LICENSE'', ''Update MIT License'', mit) \<in> set (commits (new_events s s'))"
    if "(\<exists>v. r = Inr v) \<and> (\<forall>k cf. contents_reply env k = Inr cf \<longrightarrow> cf_path cf = ''LICENSE'')"
    using c3 that by metis
  from c1 c2 c3 c4 show ?thesis by blast
qed

lemma steps_generated:
  "steps_2_to_4 env_fresh (JObj req_round1) s_init =
     (Inr (JStr ''ada@example.org'', JStr ''demo'', JStr ''Show a greeting'', JInt 1, JStr ''n-1'',
           JStr ''https://example.org/notify'', demo_files), s_generated)"
  by (simp add: steps_2_to_4_def req_round1_def demo_attachments_def env_fresh_def env_demo_def
        s_init_def s_generated_def eval_defs string_defs)

lemma deploy_without_attachments:
  "fst (create_and_deploy_repo env_fresh (JStr ''demo'') demo_files (JStr ''Show a greeting'') None s_generated)
     = Inr (''https://github.com/ada/demo'', ''c0ffee'', Some ''https://ada.github.io/demo/'')
   \<and> commits (new_events s_generated (snd (create_and_deploy_repo env_fresh (JStr ''demo'') demo_files
          (JStr ''Show a greeting'') None s_generated)))
     = [(''index.html'', ''Add index.html'', ''<html></html>''),
        (''LICENSE'', ''Update MIT License'', get_mit_license (Some ''Ada''))]"
  by (simp add: env_fresh_def env_demo_def demo_files_def s_generated_def repo_demo_def
        round1_defs eval_defs string_defs new_events_def)

theorem license_is_always_mit_witness:
  "fst (create_and_deploy_repo env_fresh (JStr ''demo'') demo_files (JStr ''Show a greeting'') None s_generated)
     = Inr (''https://github.com/ada/demo'', ''c0ffee'', Some ''https://ada.github.io/demo/'')
   \<and> demo_files = JObj [(''index.html'', JStr ''<html></html>''), (''LICENSE'', JStr ''All rights reserved'')]
   \<and> commits (new_events s_generated (snd (create_and_deploy_repo env_fresh (JStr ''demo'') demo_files
          (JStr ''Show a greeting'') None s_generated)))
     = [(''index.html'', ''Add index.html'', ''<html></html>''),
        (''LICENSE'', ''Update MIT License'',
         ''MIT License'' @ [CHR 0x0A] @ ''Copyright (c) 2025 Ada'' @ [CHR 0x0A]
         @ ''Permission is hereby granted, free of charge, to any person obtaining a copy...''
         @ [CHR 0x0A])]
   \<and> ((''LICENSE'', ''Add MIT License'',
         ''MIT License'' @ [CHR 0x0A] @ ''Copyright (c) 2025 Ada'' @ [CHR 0x0A]
         @ ''Permission is hereby granted, free of charge, to any person obtaining a copy...''
         @ [CHR 0x0A])
         \<in> set (commits (new_events s_generated (snd (create_and_deploy_repo env_fresh (JStr ''demo'')
               demo_files (JStr ''Show a greeting'') None s_generated))))
      \<or> (''LICENSE'', ''Update MIT License'',
         ''MIT License'' @ [CHR 0x0A] @ ''Copyright (c) 2025 Ada'' @ [CHR 0x0A]
         @ ''Permission is hereby granted, free of charge, to any person obtaining a copy...''
         @ [CHR 0x0A])
         \<in> set (commits (new_events s_generated (snd (create_and_deploy_repo env_fresh (JStr ''demo'')
               demo_files (JStr ''Show a greeting'') None s_generated)))))"
proof -
  let ?run = "create_and_deploy_repo env_fresh (JStr ''demo'') demo_files (JStr ''Show a greeting'') None s_generated"
  have u: "user_name env_fresh = Some ''Ada''" by (simp add: env_fresh_def env_demo_def)
  have h: "\<forall>k cf. contents_reply env_fresh k = Inr cf \<longrightarrow> cf_path cf = ''LICENSE''"
    by (auto simp: env_fresh_def)
  have r: "fst ?run = Inr (''https://github.com/ada/demo'', ''c0ffee'', Some ''https://ada.github.io/demo/'')"
    using deploy_without_attachments by simp
  have c: "commits (new_events s_generated (snd ?run))
     = [(''index.html'', ''Add index.html'', ''<html></html>''),
        (''LICENSE'', ''Update MIT License'',
         ''MIT License'' @ [CHR 0x0A] @ ''Copyright (c) 2025 Ada'' @ [CHR 0x0A]
         @ ''Permission is hereby granted, free of charge, to any person obtaining a copy...''
         @ [CHR 0x0A])]"
    using deploy_without_attachments by (simp add: mit_text)
  have "?run = (fst ?run, snd ?run)" by simp
  from license_is_always_mit[OF this, unfolded u, THEN conjunct2, THEN conjunct2, THEN conjunct2] r h
  have "(''LICENSE'', ''Add MIT License'',
         ''MIT License'' @ [CHR 0x0A] @ ''Copyright (c) 2025 Ada'' @ [CHR 0x0A]
         @ ''Permission is hereby granted, free of charge, to any person obtaining a copy...''
         @ [CHR 0x0A]) \<in> set (commits (new_events s_generated (snd ?run)))
      \<or> (''LICENSE'', ''Update MIT License'',
         ''MIT License'' @ [CHR 0x0A] @ ''Copyright (c) 2025 Ada'' @ [CHR 0x0A]
         @ ''Permission is hereby granted, free of charge, to any person obtaining a copy...''
         @ [CHR 0x0A]) \<in> set (commits (new_events s_generated (snd ?run)))"
    by simp
  with r c show ?thesis by (simp add: demo_files_def)
qed

lemma attachment_message: "''Add attachment '' @ name \<noteq> ''Add '' @ name"
proof
  assume "''Add attachment '' @ name = ''Add '' @ name"
  then have "length (''Add attachment '' @ name) = length (''Add '' @ name)" by (rule arg_cong)
  then show False by simp
qed

lemma publisher_uploads_no_attachment:
  assumes "create_and_deploy_repo env task app_code brief None s = (r, s')"
  shows "GitHub (CreateFile repo name (''Add attachment '' @ name) content) reply \<notin> set (new_events s s')"
proof
  assume a: "GitHub (CreateFile repo name (''Add attachment '' @ name) content) reply \<in> set (new_events s s')"
  from emitsD[OF emits_create_and_deploy_repo assms] obtain es where
    es: "trace s' = trace s @ es" "list_all (publisher_event env (dict_keys app_code)) es" by blast
  then have "new_events s s' = es" by (simp add: new_events_def)
  with a es(2) have "publisher_event env (dict_keys app_code)
      (GitHub (CreateFile repo name (''Add attachment '' @ name) content) reply)"
    by (simp add: list_all_iff)
  then have "''Add attachment '' @ name = ''Add '' @ name"
    by (auto simp: publisher_event_def)
  with attachment_message show False by blast
qed

text \<open>
  C3 fails on the code. The handler calls \<^verbatim>\<open>create_and_deploy_repo(task, app_code, brief)\<close>
  and leaves the parameter \<^verbatim>\<open>attachments\<close> at its default \<^verbatim>\<open>None\<close>, so the section "Process
  attachments if any" never runs (lemma \<open>publisher_uploads_no_attachment\<close>). In this Round 1
  build the request carries the attachment \<open>notes.txt\<close> as a data URI: the build completes,
  and the files committed are the page and the license; the attachment is not among
  them. The same publisher, given the attachments, commits it.
\<close>

theorem attachments_never_uploaded:
  "outcome (build_app env_fresh (JObj req_round1) s_init)
     = Some (Inr (Some (JObj [(''status'', JStr ''ok''), (''message'', JStr ''Round 1 build complete'')])))
   \<and> commits (final_trace (build_app env_fresh (JObj req_round1) s_init))
     = [(''index.html'', ''Add index.html'', ''<html></html>''),
        (''LICENSE'', ''Update MIT License'', get_mit_license (Some ''Ada''))]
   \<and> commits (new_events s_generated (snd (create_and_deploy_repo env_fresh (JStr ''demo'') demo_files
          (JStr ''Show a greeting'') (Some demo_attachments) s_generated)))
     = [(''index.html'', ''Add index.html'', ''<html></html>''),
        (''notes.txt'', ''Add attachment notes.txt'', ''hi''),
        (''LICENSE'', ''Update MIT License'', get_mit_license (Some ''Ada''))]"
proof (intro conjI)
  have sec: "py_get (JObj req_round1) ''secret'' = Inr (JStr ''s3cret'')"
    by (simp add: py_get_def req_round1_def)
  have secret_fresh: "STUDENT_SECRET env_fresh = Some ''s3cret''"
    by (simp add: env_fresh_def env_demo_def)
  have b: "build_app env_fresh (JObj req_round1) s_init =
      (case create_and_deploy_repo env_fresh (JStr ''demo'') demo_files (JStr ''Show a greeting'') None s_generated of
         (Inl e, s2) \<Rightarrow> Some (Inl e, s2)
       | (Inr result, s2) \<Rightarrow>
           notify env_fresh (JStr ''https://example.org/notify'')
             (callback_payload (JStr ''ada@example.org'') (JStr ''demo'') (JInt 1) (JStr ''n-1'') result)
             ''Round 1 build complete'' s2)"
    by (simp add: build_app_def sec authenticated_def steps_generated py_ne_secret_def py_eq_int_def
          secret_fresh)
  show "outcome (build_app env_fresh (JObj req_round1) s_init)
     = Some (Inr (Some (JObj [(''status'', JStr ''ok''), (''message'', JStr ''Round 1 build complete'')])))"
    unfolding b
    by (simp add: outcome_def env_fresh_def env_demo_def demo_files_def s_generated_def repo_demo_def
        round1_defs eval_defs string_defs response_def)
  show "commits (final_trace (build_app env_fresh (JObj req_round1) s_init))
     = [(''index.html'', ''Add index.html'', ''<html></html>''),
        (''LICENSE'', ''Update MIT License'', get_mit_license (Some ''Ada''))]"
    unfolding b
    by (simp add: final_trace_def env_fresh_def env_demo_def demo_files_def s_generated_def repo_demo_def
        round1_defs eval_defs string_defs)
  show "commits (new_events s_generated (snd (create_and_deploy_repo env_fresh (JStr ''demo'') demo_files
          (JStr ''Show a greeting'') (Some demo_attachments) s_generated)))
     = [(''index.html'', ''Add index.html'', ''<html></html>''),
        (''notes.txt'', ''Add attachment notes.txt'', ''hi''),
        (''LICENSE'', ''Update MIT License'', get_mit_license (Some ''Ada''))]"
    by (simp add: env_fresh_def env_demo_def demo_files_def demo_attachments_def s_generated_def repo_demo_def
        round1_defs eval_defs string_defs new_events_def)
qed

section \<open>The dispatch on a round that is not a number\<close>

lemma steps_round_true:
  "steps_2_to_4 env_fresh (JObj req_round_true) s_init =
     (Inr (JStr ''ada@example.org'', JStr ''demo'', JStr ''Show a greeting'', JBool True, JStr ''n-1'',
           JStr ''https://example.org/notify'', demo_files),
      \<lparr>trace = [Llm (Generate (JStr ''Show a greeting'') [] [])], calls = 1, now = 250\<rparr>)"
  by (simp add: steps_2_to_4_def req_round_true_def env_fresh_def env_demo_def
        s_init_def eval_defs string_defs)

text \<open>
  C8 as the specification states it fails: the round of this authenticated request is
  the JSON value \<open>true\<close>, which is neither the number 1 nor the number 2, and the Round 1
  branch runs. The repository is created, the page and the license are committed, the
  callback is posted with the round \<open>true\<close>, and the handler returns the Round 1
  response.
\<close>

theorem round_true_counterexample:
  "map_of req_round_true ''round'' = Some (JBool True)
   \<and> JBool True \<noteq> JInt 1 \<and> JBool True \<noteq> JInt 2
   \<and> outcome (build_app env_fresh (JObj req_round_true) s_init)
     = Some (Inr (Some (JObj [(''status'', JStr ''ok''), (''message'', JStr ''Round 1 build complete'')])))
   \<and> GitHub (CreateRepo ''demo'' False ''Show a greeting'' ''mit'') None
       \<in> set (final_trace (build_app env_fresh (JObj req_round_true) s_init))
   \<and> commits (final_trace (build_app env_fresh (JObj req_round_true) s_init))
     = [(''index.html'', ''Add index.html'', ''<html></html>''),
        (''LICENSE'', ''Update MIT License'', get_mit_license (Some ''Ada''))]
   \<and> last (final_trace (build_app env_fresh (JObj req_round_true) s_init))
     = Http (Post (JStr ''https://example.org/notify'')
         (JObj [(''email'', JStr ''ada@example.org''), (''task'', JStr ''demo''),
            (''round'', JBool True), (''nonce'', JStr ''n-1''),
            (''repo_url'', JStr ''https://github.com/ada/demo''),
            (''commit_sha'', JStr ''c0ffee''),
            (''pages_url'', JStr ''https://ada.github.io/demo/'')])
         (Some 10)) (Inr 200)"
proof (intro conjI)
  show "map_of req_round_true ''round'' = Some (JBool True)" by (simp add: req_round_true_def)
  show "JBool True \<noteq> JInt 1" by simp
  show "JBool True \<noteq> JInt 2" by simp
  have sec: "py_get (JObj req_round_true) ''secret'' = Inr (JStr ''s3cret'')"
    by (simp add: py_get_def req_round_true_def)
  have secret_fresh: "STUDENT_SECRET env_fresh = Some ''s3cret''"
    by (simp add: env_fresh_def env_demo_def)
  have b: "build_app env_fresh (JObj req_round_true) s_init =
      (case create_and_deploy_repo env_fresh (JStr ''demo'') demo_files (JStr ''Show a greeting'') None
              \<lparr>trace = [Llm (Generate (JStr ''Show a greeting'') [] [])], calls = 1, now = 250\<rparr> of
         (Inl e, s2) \<Rightarrow> Some (Inl e, s2)
       | (Inr result, s2) \<Rightarrow>
           notify env_fresh (JStr ''https://example.org/notify'')
             (callback_payload (JStr ''ada@example.org'') (JStr ''demo'') (JBool True) (JStr ''n-1'') result)
             ''Round 1 build complete'' s2)"
    by (simp add: build_app_def sec authenticated_def steps_round_true py_ne_secret_def py_eq_int_def
          secret_fresh)
  show "outcome (build_app env_fresh (JObj req_round_true) s_init)
     = Some (Inr (Some (JObj [(''status'', JStr ''ok''), (''message'', JStr ''Round 1 build complete'')])))"
    unfolding b
    by (simp add: outcome_def env_fresh_def env_demo_def demo_files_def repo_demo_def
        round1_defs eval_defs string_defs response_def)
  show "GitHub (CreateRepo ''demo'' False ''Show a greeting'' ''mit'') None
       \<in> set (final_trace (build_app env_fresh (JObj req_round_true) s_init))"
    unfolding b
    by (simp add: final_trace_def env_fresh_def env_demo_def demo_files_def repo_demo_def
        round1_defs eval_defs string_defs)
  show "commits (final_trace (build_app env_fresh (JObj req_round_true) s_init))
     = [(''index.html'', ''Add index.html'', ''<html></html>''),
        (''LICENSE'', ''Update MIT License'', get_mit_license (Some ''Ada''))]"
    unfolding b
    by (simp add: final_trace_def env_fresh_def env_demo_def demo_files_def repo_demo_def
        round1_defs eval_defs string_defs)
  show "last (final_trace (build_app env_fresh (JObj req_round_true) s_init))
     = Http (Post (JStr ''https://example.org/notify'')
         (JObj [(''email'', JStr ''ada@example.org''), (''task'', JStr ''demo''),
            (''round'', JBool True), (''nonce'', JStr ''n-1''),
            (''repo_url'', JStr ''https://github.com/ada/demo''),
            (''commit_sha'', JStr ''c0ffee''),
            (''pages_url'', JStr ''https://ada.github.io/demo/'')])
         (Some 10)) (Inr 200)"
    unfolding b
    by (simp add: final_trace_def env_fresh_def env_demo_def demo_files_def repo_demo_def
        round1_defs eval_defs string_defs)
qed

end
